theory Spec2Isabelle
  imports Complex_Main "HOL-Library.Multiset"
begin

section \<open>Number model\<close>

text \<open>
  The program is TypeScript; every \<open>number\<close> is modelled as a \<^typ>\<open>real\<close> (rounding of
  IEEE doubles is not modelled), integer grid indices as \<^typ>\<open>int\<close>. Record fields carry a
  prefix naming their interface, because several interfaces of the source share the field
  names \<open>x\<close>, \<open>y\<close>, \<open>z\<close>. The fish motion, where the source divides by a distance that
  can be zero and stores the quotient, is modelled with an explicit type of non-finite
  results below.
\<close>

section \<open>types.ts and utils/math\<close>

record Point3D =
  p3_x :: real
  p3_y :: real
  p3_z :: real

record Point2D =
  p2_x :: real
  p2_y :: real
  p2_scale :: real

definition DEFAULT_FOCAL_LENGTH :: real where
  "DEFAULT_FOCAL_LENGTH = 800"

text \<open>The local \<open>depth\<close> of \<open>project3DTo2D\<close>: \<open>Math.max(1, z + focalLength)\<close> with
  \<open>z = point.z - cameraZ\<close>.\<close>

definition projDepth :: "Point3D \<Rightarrow> real \<Rightarrow> real \<Rightarrow> real" where
  "projDepth point cameraZ focalLength =
     (let z = p3_z point - cameraZ in max 1 (z + focalLength))"

definition project3DTo2D ::
  "Point3D \<Rightarrow> real \<Rightarrow> real \<Rightarrow> real \<Rightarrow> real \<Rightarrow> real \<Rightarrow> real \<Rightarrow> Point2D" where
  "project3DTo2D point cameraX cameraY cameraZ centerX centerY focalLength =
     (let x = p3_x point - cameraX;
          y = p3_y point - cameraY;
          depth = projDepth point cameraZ focalLength;
          scale = focalLength / depth
      in \<lparr>p2_x = centerX + x * scale, p2_y = centerY + y * scale, p2_scale = scale\<rparr>)"

text \<open>The call with the last argument omitted takes the default focal length.\<close>

definition project3DTo2D_default ::
  "Point3D \<Rightarrow> real \<Rightarrow> real \<Rightarrow> real \<Rightarrow> real \<Rightarrow> real \<Rightarrow> Point2D" where
  "project3DTo2D_default point cameraX cameraY cameraZ centerX centerY =
     project3DTo2D point cameraX cameraY cameraZ centerX centerY DEFAULT_FOCAL_LENGTH"

text \<open>\<open>randomRange\<close> reads one value of the ambient random source; the source of randomness
  is a sequence \<open>rnd\<close> of draws and a position \<open>n\<close> in it, so \<open>Math.random()\<close> at position
  \<open>n\<close> is \<open>rnd n\<close> and the next call reads \<open>rnd (n + 1)\<close>.\<close>

definition randomRange :: "real \<Rightarrow> real \<Rightarrow> real \<Rightarrow> real" where
  "randomRange r lo hi = r * (hi - lo) + lo"

text \<open>What \<open>Math.random\<close> promises of each draw.\<close>

definition unitDraws :: "(nat \<Rightarrow> real) \<Rightarrow> bool" where
  "unitDraws rnd = (\<forall>n. 0 \<le> rnd n \<and> rnd n < 1)"

section \<open>Constants of the canvas component\<close>

definition CHUNK_SIZE :: real where "CHUNK_SIZE = 3000"
definition RENDER_DISTANCE_CHUNKS :: int where "RENDER_DISTANCE_CHUNKS = 1"
definition VISIBILITY_DEPTH :: real where "VISIBILITY_DEPTH = 3500"
definition PLANTS_PER_CHUNK :: nat where "PLANTS_PER_CHUNK = 40"
definition FISH_PER_CHUNK :: nat where "FISH_PER_CHUNK = 15"
definition CRABS_PER_CHUNK :: nat where "CRABS_PER_CHUNK = 4"
definition FRICTION :: real where "FRICTION = 0.85"
definition ACCELERATION :: real where "ACCELERATION = 1.5"
definition MAX_SPEED :: real where "MAX_SPEED = 20"
definition GRAVITY :: real where "GRAVITY = 0.8"
definition JUMP_FORCE :: real where "JUMP_FORCE = 18"
definition FLOOR_LEVEL :: real where "FLOOR_LEVEL = 1350"
definition SURFACE_LEVEL :: real where "SURFACE_LEVEL = 0"
definition PLAYER_HEIGHT :: real where "PLAYER_HEIGHT = 140"

section \<open>Camera physics (step 1 of the render loop)\<close>

record Camera =
  cam_x :: real
  cam_y :: real
  cam_z :: real
  cam_focalLength :: real
  cam_targetFocalLength :: real
  cam_lookX :: real
  cam_lookY :: real
  cam_velX :: real
  cam_velY :: real
  cam_velZ :: real
  cam_rotationZ :: real
  cam_isGrounded :: bool

record UiActions =
  ui_jump :: bool
  ui_zoomIn :: bool
  ui_zoomOut :: bool
  ui_forward :: bool
  ui_backward :: bool
  ui_left :: bool
  ui_right :: bool

record Mouse =
  mouse_x :: real
  mouse_y :: real

record Env =
  env_skyHue :: real
  env_fogDensity :: real
  env_gravityMult :: real

text \<open>The jump statement: \<open>if (!isChatOpen && (keys.has('Space') || ui.jump) && cam.isGrounded)\<close>
  sets the vertical velocity and clears the flag. The result is the pair
  \<open>(velY, isGrounded)\<close> after the statement.\<close>

definition jumpImpulse :: "bool \<Rightarrow> string set \<Rightarrow> UiActions \<Rightarrow> Env \<Rightarrow> Camera \<Rightarrow> real \<times> bool" where
  "jumpImpulse isChatOpen keys ui env cam =
     (if \<not> isChatOpen \<and> (''Space'' \<in> keys \<or> ui_jump ui) \<and> cam_isGrounded cam
      then (- JUMP_FORCE * env_gravityMult env, False)
      else (cam_velY cam, cam_isGrounded cam))"

text \<open>The floor clamp: the triple \<open>(y, velY, isGrounded)\<close> after the \<open>if (cam.y > floorY)\<close>.\<close>

definition floorClamp :: "real \<Rightarrow> real \<Rightarrow> real \<times> real \<times> bool" where
  "floorClamp y velY =
     (let floorY = FLOOR_LEVEL - PLAYER_HEIGHT
      in if y > floorY then (floorY, 0, True) else (y, velY, False))"

definition cameraPhysics ::
  "bool \<Rightarrow> string set \<Rightarrow> UiActions \<Rightarrow> Mouse \<Rightarrow> Env \<Rightarrow> Camera \<Rightarrow> Camera" where
  "cameraPhysics isChatOpen keys ui mouse env cam =
     (let az1 = (if \<not> isChatOpen \<and> (''KeyW'' \<in> keys \<or> ''ArrowUp'' \<in> keys \<or> ui_forward ui)
                 then 0 + ACCELERATION else 0);
          az = (if \<not> isChatOpen \<and> (''KeyS'' \<in> keys \<or> ''ArrowDown'' \<in> keys \<or> ui_backward ui)
                then az1 - ACCELERATION else az1);
          ax1 = (if \<not> isChatOpen \<and> (''KeyA'' \<in> keys \<or> ''ArrowLeft'' \<in> keys \<or> ui_left ui)
                 then 0 - ACCELERATION else 0);
          ax = (if \<not> isChatOpen \<and> (''KeyD'' \<in> keys \<or> ''ArrowRight'' \<in> keys \<or> ui_right ui)
                then ax1 + ACCELERATION else ax1);
          velX1 = cam_velX cam + ax;
          velZ1 = cam_velZ cam + az;
          (velY1, grounded1) = jumpImpulse isChatOpen keys ui env cam;
          velY2 = velY1 + GRAVITY * env_gravityMult env;
          tfl1 = (if \<not> isChatOpen \<and> (''KeyQ'' \<in> keys \<or> ui_zoomIn ui)
                  then cam_targetFocalLength cam + 10 else cam_targetFocalLength cam);
          tfl2 = (if \<not> isChatOpen \<and> (''KeyE'' \<in> keys \<or> ui_zoomOut ui)
                  then tfl1 - 10 else tfl1);
          tfl3 = max 300 (min 2000 tfl2);
          fl = cam_focalLength cam + (tfl3 - cam_focalLength cam) * 0.1;
          velX2 = max (- MAX_SPEED) (min MAX_SPEED velX1);
          velZ2 = max (- MAX_SPEED) (min MAX_SPEED velZ1);
          x1 = cam_x cam + velX2;
          y1 = cam_y cam + velY2;
          z1 = cam_z cam + velZ2;
          (y2, velY3, grounded2) = floorClamp y1 velY2;
          rot = cam_rotationZ cam + (velX2 * 0.001 - cam_rotationZ cam) * 0.1;
          velX3 = velX2 * FRICTION;
          velZ3 = velZ2 * FRICTION;
          lookX1 = (if \<not> isChatOpen then cam_lookX cam + (mouse_x mouse * 600 - cam_lookX cam) * 0.1
                    else cam_lookX cam);
          lookY1 = (if \<not> isChatOpen then cam_lookY cam + (mouse_y mouse * 400 - cam_lookY cam) * 0.1
                    else cam_lookY cam)
      in \<lparr>cam_x = x1, cam_y = y2, cam_z = z1,
          cam_focalLength = fl, cam_targetFocalLength = tfl3,
          cam_lookX = lookX1, cam_lookY = lookY1,
          cam_velX = velX3, cam_velY = velY3, cam_velZ = velZ3,
          cam_rotationZ = rot, cam_isGrounded = grounded2\<rparr>)"

text \<open>The camera as \<open>cameraRef\<close> is initialised, and a camera standing on the floor at rest.\<close>

definition initialCamera :: Camera where
  "initialCamera = \<lparr>cam_x = 0, cam_y = FLOOR_LEVEL - PLAYER_HEIGHT, cam_z = - 800,
     cam_focalLength = DEFAULT_FOCAL_LENGTH, cam_targetFocalLength = DEFAULT_FOCAL_LENGTH,
     cam_lookX = 0, cam_lookY = 0, cam_velX = 0, cam_velY = 0, cam_velZ = 0,
     cam_rotationZ = 0, cam_isGrounded = False\<rparr>"

definition restingCamera :: Camera where
  "restingCamera = initialCamera\<lparr>cam_isGrounded := True\<rparr>"

definition noUi :: UiActions where
  "noUi = \<lparr>ui_jump = False, ui_zoomIn = False, ui_zoomOut = False, ui_forward = False,
     ui_backward = False, ui_left = False, ui_right = False\<rparr>"

definition centreMouse :: Mouse where
  "centreMouse = \<lparr>mouse_x = 0, mouse_y = 0\<rparr>"

definition initialEnv :: Env where
  "initialEnv = \<lparr>env_skyHue = 180, env_fogDensity = 1, env_gravityMult = 1\<rparr>"

section \<open>Render queue (step 4 of the render loop)\<close>

text \<open>
  A queued item holds its sort key and the closure \<open>draw\<close>. The closure is modelled by the
  values it captures: the item's world position, the fog factor, the cosine and sine of the
  bank angle, and the caller's \<open>drawFn\<close> (a value of any type \<open>'d\<close> that identifies it).
\<close>

record 'd DrawClosure =
  cl_itemX :: real
  cl_itemY :: real
  cl_itemZ :: real
  cl_distFactor :: real
  cl_rCos :: real
  cl_rSin :: real
  cl_drawFn :: 'd

record 'd RenderItem =
  ri_z :: real
  ri_draw :: "'d DrawClosure"

text \<open>\<open>pushRenderItem\<close>: the early \<open>return\<close> of the visibility cull leaves the queue as it
  is. With \<open>fogDensity = 0\<close> the source divides by Infinity and obtains the factor 1; the
  real-valued quotient below gives the same 1.\<close>

definition pushRenderItem ::
  "Camera \<Rightarrow> real \<Rightarrow> 'd RenderItem list \<Rightarrow> real \<Rightarrow> real \<Rightarrow> real \<Rightarrow> 'd \<Rightarrow> 'd RenderItem list" where
  "pushRenderItem cam fogDensity renderQueue itemX itemY itemZ drawFn =
     (let relZ = itemZ - cam_z cam
      in if relZ < 1 \<or> relZ > VISIBILITY_DEPTH then renderQueue
         else
           (let distFactor = max 0 (1 - (relZ / (VISIBILITY_DEPTH / fogDensity)));
                rCos = cos (cam_rotationZ cam);
                rSin = sin (cam_rotationZ cam)
            in renderQueue @
                 [\<lparr>ri_z = relZ,
                   ri_draw = \<lparr>cl_itemX = itemX, cl_itemY = itemY, cl_itemZ = itemZ,
                     cl_distFactor = distFactor, cl_rCos = rCos, cl_rSin = rSin,
                     cl_drawFn = drawFn\<rparr>\<rparr>]))"

text \<open>One executed draw: which \<open>drawFn\<close> ran, with which fog factor and screen point.\<close>

record 'd DrawCall =
  dc_drawFn :: 'd
  dc_distFactor :: real
  dc_p :: Point2D

definition runDraw :: "Camera \<Rightarrow> real \<Rightarrow> real \<Rightarrow> 'd DrawClosure \<Rightarrow> 'd DrawCall" where
  "runDraw cam centerX centerY cl =
     (let p = project3DTo2D \<lparr>p3_x = cl_itemX cl, p3_y = cl_itemY cl, p3_z = cl_itemZ cl\<rparr>
                (cam_x cam + cam_lookX cam * 0.5) (cam_y cam + cam_lookY cam * 0.5) (cam_z cam)
                centerX centerY (cam_focalLength cam);
          finalX = (p2_x p - centerX) * cl_rCos cl - (p2_y p - centerY) * cl_rSin cl + centerX;
          finalY = (p2_x p - centerX) * cl_rSin cl + (p2_y p - centerY) * cl_rCos cl + centerY
      in \<lparr>dc_drawFn = cl_drawFn cl, dc_distFactor = cl_distFactor cl,
          dc_p = p\<lparr>p2_x := finalX, p2_y := finalY\<rparr>\<rparr>)"

text \<open>\<open>Array.prototype.sort\<close> with a comparator is a stable sort: \<open>a\<close> stays before \<open>b\<close>
  unless the comparator is positive. It is modelled by a stable insertion sort.\<close>

fun insertBy :: "('a \<Rightarrow> 'a \<Rightarrow> real) \<Rightarrow> 'a \<Rightarrow> 'a list \<Rightarrow> 'a list" where
  "insertBy cmp a [] = [a]"
| "insertBy cmp a (b # bs) = (if cmp a b \<le> 0 then a # b # bs else b # insertBy cmp a bs)"

definition sortBy :: "('a \<Rightarrow> 'a \<Rightarrow> real) \<Rightarrow> 'a list \<Rightarrow> 'a list" where
  "sortBy cmp xs = foldr (insertBy cmp) xs []"

text \<open>\<open>renderQueue.sort((a, b) => b.z - a.z)\<close> and \<open>renderQueue.forEach(item => item.draw())\<close>.\<close>

definition sortQueue :: "'d RenderItem list \<Rightarrow> 'd RenderItem list" where
  "sortQueue renderQueue = sortBy (\<lambda>a b. ri_z b - ri_z a) renderQueue"

definition executeQueue :: "Camera \<Rightarrow> real \<Rightarrow> real \<Rightarrow> 'd RenderItem list \<Rightarrow> 'd DrawCall list" where
  "executeQueue cam centerX centerY renderQueue =
     map (\<lambda>item. runDraw cam centerX centerY (ri_draw item)) (sortQueue renderQueue)"

text \<open>The submissions of one frame, in the order the frame makes them, starting from the
  empty queue; a submission is \<open>(itemX, itemY, itemZ, drawFn)\<close>.\<close>

definition submitAll :: "Camera \<Rightarrow> real \<Rightarrow> (real \<times> real \<times> real \<times> 'd) list \<Rightarrow> 'd RenderItem list" where
  "submitAll cam fogDensity subs =
     foldl (\<lambda>q (itemX, itemY, itemZ, drawFn). pushRenderItem cam fogDensity q itemX itemY itemZ drawFn)
       [] subs"

definition culled :: "Camera \<Rightarrow> (real \<times> real \<times> real \<times> 'd) \<Rightarrow> bool" where
  "culled cam sub = (case sub of (itemX, itemY, itemZ, drawFn) \<Rightarrow>
     itemZ - cam_z cam < 1 \<or> itemZ - cam_z cam > VISIBILITY_DEPTH)"

section \<open>Entities and chunks (types.ts)\<close>

text \<open>
  The fish motion divides by a distance that can be zero, and stores the quotient in the
  fish position. A \<open>number\<close> that can be non-finite is a \<open>jsnum\<close>: a real, an infinity or
  NaN, with the IEEE rules of JavaScript for the operations the fish motion uses. Signed
  zeros are not modelled: a zero divisor is +0, which is what \<open>Math.sqrt\<close> of a sum of
  squares gives.
\<close>

datatype jsnum = Fin real | PosInf | NegInf | NaN

fun jsNeg :: "jsnum \<Rightarrow> jsnum" where
  "jsNeg (Fin a) = Fin (- a)"
| "jsNeg PosInf = NegInf"
| "jsNeg NegInf = PosInf"
| "jsNeg NaN = NaN"

fun jsAdd :: "jsnum \<Rightarrow> jsnum \<Rightarrow> jsnum" where
  "jsAdd NaN b = NaN"
| "jsAdd a NaN = NaN"
| "jsAdd (Fin a) (Fin b) = Fin (a + b)"
| "jsAdd PosInf NegInf = NaN"
| "jsAdd NegInf PosInf = NaN"
| "jsAdd PosInf b = PosInf"
| "jsAdd a PosInf = PosInf"
| "jsAdd NegInf b = NegInf"
| "jsAdd a NegInf = NegInf"

definition jsSub :: "jsnum \<Rightarrow> jsnum \<Rightarrow> jsnum" where
  "jsSub a b = jsAdd a (jsNeg b)"

fun jsSign :: "jsnum \<Rightarrow> real" where
  "jsSign (Fin a) = sgn a"
| "jsSign PosInf = 1"
| "jsSign NegInf = - 1"
| "jsSign NaN = 0"

fun jsMul :: "jsnum \<Rightarrow> jsnum \<Rightarrow> jsnum" where
  "jsMul NaN b = NaN"
| "jsMul a NaN = NaN"
| "jsMul (Fin a) (Fin b) = Fin (a * b)"
| "jsMul a b = (if jsSign a * jsSign b = 0 then NaN
                else if jsSign a * jsSign b > 0 then PosInf else NegInf)"

fun jsDiv :: "jsnum \<Rightarrow> jsnum \<Rightarrow> jsnum" where
  "jsDiv NaN b = NaN"
| "jsDiv a NaN = NaN"
| "jsDiv (Fin a) (Fin b) =
     (if b \<noteq> 0 then Fin (a / b)
      else if a = 0 then NaN else if a > 0 then PosInf else NegInf)"
| "jsDiv (Fin a) b = Fin 0"
| "jsDiv a (Fin b) = (if jsSign a * (if b < 0 then - 1 else 1) > 0 then PosInf else NegInf)"
| "jsDiv a b = NaN"

fun jsSqrt :: "jsnum \<Rightarrow> jsnum" where
  "jsSqrt (Fin a) = (if a < 0 then NaN else Fin (sqrt a))"
| "jsSqrt PosInf = PosInf"
| "jsSqrt NegInf = NaN"
| "jsSqrt NaN = NaN"

fun jsLt :: "jsnum \<Rightarrow> jsnum \<Rightarrow> bool" where
  "jsLt NaN b = False"
| "jsLt a NaN = False"
| "jsLt (Fin a) (Fin b) = (a < b)"
| "jsLt PosInf b = False"
| "jsLt a NegInf = False"
| "jsLt NegInf b = True"
| "jsLt a PosInf = True"

definition jsGt :: "jsnum \<Rightarrow> jsnum \<Rightarrow> bool" where
  "jsGt a b = jsLt b a"

fun isFinite :: "jsnum \<Rightarrow> bool" where
  "isFinite (Fin a) = True"
| "isFinite a = False"

datatype PlantType = ribbon | stalk | bulb

record Plant =
  plant_id :: real
  plant_type :: PlantType
  plant_x :: real
  plant_z :: real
  plant_yBase :: real
  plant_height :: real
  plant_width :: real
  plant_colorHue :: real
  plant_segments :: int
  plant_phaseOffset :: real
  plant_stiffness :: real

text \<open>The fields \<open>x\<close> and \<open>z\<close> of a fish are the ones its motion writes quotients into.\<close>

record Fish =
  fish_id :: real
  fish_x :: jsnum
  fish_y :: real
  fish_z :: jsnum
  fish_speed :: real
  fish_size :: real
  fish_hue :: real
  fish_tailPhase :: real
  fish_targetY :: real
  fish_targetX :: real
  fish_targetZ :: real

datatype CrabState = idle | walking

record Crab =
  crab_id :: real
  crab_x :: real
  crab_y :: real
  crab_z :: real
  crab_size :: real
  crab_walkPhase :: real
  crab_targetX :: real
  crab_targetZ :: real
  crab_speed :: real
  crab_state :: CrabState
  crab_idleTimer :: real

record Chunk =
  chunk_id :: string
  chunk_xIndex :: int
  chunk_zIndex :: int
  chunk_plants :: "Plant list"
  chunk_fishes :: "Fish list"
  chunk_crabs :: "Crab list"

section \<open>Generation\<close>

text \<open>The type chosen by the roll of \<open>createPlant\<close>: the \<open>if\<close> and its \<open>else if\<close>, in the
  order of the source.\<close>

definition rollPlantType :: "real \<Rightarrow> PlantType" where
  "rollPlantType typeRoll =
     (if typeRoll > 0.7 then stalk else if typeRoll > 0.9 then bulb else ribbon)"

text \<open>\<open>createPlant\<close> at position \<open>n\<close> of the random source; the result carries the position
  after its draws. A stalk draws neither its segment count nor its stiffness.\<close>

definition createPlant :: "(nat \<Rightarrow> real) \<Rightarrow> nat \<Rightarrow> real \<Rightarrow> real \<Rightarrow> Plant \<times> nat" where
  "createPlant rnd n baseX baseZ =
     (let typeRoll = rnd n;
          type = rollPlantType typeRoll;
          x = baseX + randomRange (rnd (n + 1)) 0 CHUNK_SIZE;
          z = baseZ + randomRange (rnd (n + 2)) 0 CHUNK_SIZE;
          ident = rnd (n + 3);
          yBase = FLOOR_LEVEL + randomRange (rnd (n + 4)) 0 50;
          height = (if type = stalk then randomRange (rnd (n + 5)) 1500 2500
                    else randomRange (rnd (n + 5)) 600 1600);
          width = (if type = stalk then randomRange (rnd (n + 6)) 15 40
                   else randomRange (rnd (n + 6)) 8 25);
          colorHue = randomRange (rnd (n + 7)) 140 175;
          (segments, n1) = (if type = stalk then (4, n + 8)
                            else (\<lfloor>randomRange (rnd (n + 8)) 8 16\<rfloor>, n + 9));
          phaseOffset = randomRange (rnd n1) 0 (pi * 2);
          (stiffness, n2) = (if type = stalk then (0.2, n1 + 1)
                             else (randomRange (rnd (n1 + 1)) 0.8 1.5, n1 + 2))
      in (\<lparr>plant_id = ident, plant_type = type, plant_x = x, plant_z = z, plant_yBase = yBase,
           plant_height = height, plant_width = width, plant_colorHue = colorHue,
           plant_segments = segments, plant_phaseOffset = phaseOffset,
           plant_stiffness = stiffness\<rparr>, n2))"

text \<open>The fish and the crab that the loops of \<open>generateChunk\<close> push.\<close>

definition newFish :: "(nat \<Rightarrow> real) \<Rightarrow> nat \<Rightarrow> real \<Rightarrow> real \<Rightarrow> Fish \<times> nat" where
  "newFish rnd n baseX baseZ =
     (let x = baseX + randomRange (rnd n) 0 CHUNK_SIZE;
          z = baseZ + randomRange (rnd (n + 1)) 0 CHUNK_SIZE
      in (\<lparr>fish_id = rnd (n + 2), fish_x = Fin x,
           fish_y = randomRange (rnd (n + 3)) (SURFACE_LEVEL + 200) (FLOOR_LEVEL - 200),
           fish_z = Fin z,
           fish_speed = randomRange (rnd (n + 4)) 4 8,
           fish_size = randomRange (rnd (n + 5)) 30 70,
           fish_hue = randomRange (rnd (n + 6)) 0 360,
           fish_tailPhase = randomRange (rnd (n + 7)) 0 (pi * 2),
           fish_targetY = randomRange (rnd (n + 8)) (SURFACE_LEVEL + 200) (FLOOR_LEVEL - 200),
           fish_targetX = x + randomRange (rnd (n + 9)) (- 500) 500,
           fish_targetZ = z + randomRange (rnd (n + 10)) (- 500) 500\<rparr>, n + 11))"

definition newCrab :: "(nat \<Rightarrow> real) \<Rightarrow> nat \<Rightarrow> real \<Rightarrow> real \<Rightarrow> Crab \<times> nat" where
  "newCrab rnd n baseX baseZ =
     (\<lparr>crab_id = rnd n,
       crab_x = baseX + randomRange (rnd (n + 1)) 0 CHUNK_SIZE,
       crab_y = FLOOR_LEVEL,
       crab_z = baseZ + randomRange (rnd (n + 2)) 0 CHUNK_SIZE,
       crab_size = randomRange (rnd (n + 3)) 30 60,
       crab_walkPhase = rnd (n + 4) * 100,
       crab_targetX = baseX + randomRange (rnd (n + 5)) 0 CHUNK_SIZE,
       crab_targetZ = baseZ + randomRange (rnd (n + 6)) 0 CHUNK_SIZE,
       crab_speed = randomRange (rnd (n + 7)) 1 3,
       crab_state = idle,
       crab_idleTimer = 0\<rparr>, n + 8)"

text \<open>A counting loop \<open>for (let i = 0; i < k; i++) list.push(g())\<close>, where \<open>g\<close> draws from
  the random source.\<close>

primrec pushTimes :: "nat \<Rightarrow> (nat \<Rightarrow> 'a \<times> nat) \<Rightarrow> nat \<Rightarrow> 'a list \<times> nat" where
  "pushTimes 0 g n = ([], n)"
| "pushTimes (Suc k) g n =
     (let (a, n1) = g n; (as, n2) = pushTimes k g n1 in (a # as, n2))"

text \<open>The decimal text of an integer, as a template literal prints an integral number.\<close>

fun showNat :: "nat \<Rightarrow> string" where
  "showNat n = (if n < 10 then [''0123456789'' ! n]
                else showNat (n div 10) @ [''0123456789'' ! (n mod 10)])"

declare showNat.simps [simp del]

definition showInt :: "int \<Rightarrow> string" where
  "showInt i = (if i < 0 then ''-'' @ showNat (nat (- i)) else showNat (nat i))"

definition chunkKey :: "int \<Rightarrow> int \<Rightarrow> string" where
  "chunkKey x z = showInt x @ '','' @ showInt z"

definition generateChunk :: "(nat \<Rightarrow> real) \<Rightarrow> nat \<Rightarrow> int \<Rightarrow> int \<Rightarrow> Chunk \<times> nat" where
  "generateChunk rnd n cx cz =
     (let chunkId = chunkKey cx cz;
          baseX = of_int cx * CHUNK_SIZE;
          baseZ = of_int cz * CHUNK_SIZE;
          (newPlants, n1) = pushTimes PLANTS_PER_CHUNK (\<lambda>m. createPlant rnd m baseX baseZ) n;
          (newFishes, n2) = pushTimes FISH_PER_CHUNK (\<lambda>m. newFish rnd m baseX baseZ) n1;
          (newCrabs, n3) = pushTimes CRABS_PER_CHUNK (\<lambda>m. newCrab rnd m baseX baseZ) n2
      in (\<lparr>chunk_id = chunkId, chunk_xIndex = cx, chunk_zIndex = cz,
           chunk_plants = newPlants, chunk_fishes = newFishes, chunk_crabs = newCrabs\<rparr>, n3))"

section \<open>Chunk store\<close>

text \<open>
  The state \<open>manageChunks\<close> works on: the last cell checked, the map \<open>chunksRef\<close> (a
  JavaScript \<open>Map\<close>, kept in insertion order as a list of key and chunk), and the position
  reached in the random source.
\<close>

record World =
  lastChunkCheckX :: int
  lastChunkCheckZ :: int
  chunksRef :: "(string \<times> Chunk) list"
  rndPos :: nat

definition initialWorld :: World where
  "initialWorld = \<lparr>lastChunkCheckX = - 9999, lastChunkCheckZ = - 9999, chunksRef = [], rndPos = 0\<rparr>"

definition cameraCell :: "Camera \<Rightarrow> int \<times> int" where
  "cameraCell cam = (\<lfloor>cam_x cam / CHUNK_SIZE\<rfloor>, \<lfloor>cam_z cam / CHUNK_SIZE\<rfloor>)"

text \<open>The body of the inner generation loop: \<open>if (!chunksRef.current.has(key)) set(key, ...)\<close>.\<close>

definition ensureChunk ::
  "(nat \<Rightarrow> real) \<Rightarrow> (string \<times> Chunk) list \<times> nat \<Rightarrow> int \<Rightarrow> int \<Rightarrow> (string \<times> Chunk) list \<times> nat" where
  "ensureChunk rnd st x z =
     (let key = chunkKey x z
      in if map_of (fst st) key \<noteq> None then st
         else (let (chunk, n1) = generateChunk rnd (snd st) x z in (fst st @ [(key, chunk)], n1)))"

definition chebyshev :: "Chunk \<Rightarrow> int \<Rightarrow> int \<Rightarrow> int" where
  "chebyshev chunk cx cz = max \<bar>chunk_xIndex chunk - cx\<bar> \<bar>chunk_zIndex chunk - cz\<bar>"

text \<open>\<open>manageChunks\<close>: the early \<open>return\<close> when the cell has not changed, the two nested
  generation loops, then the pruning loop, which deletes the entries it visits that are
  too far. The set \<open>activeKeys\<close> is written and never read, and is left out.\<close>

definition manageChunks :: "(nat \<Rightarrow> real) \<Rightarrow> Camera \<Rightarrow> World \<Rightarrow> World" where
  "manageChunks rnd cam w =
     (let (cx, cz) = cameraCell cam
      in if cx = lastChunkCheckX w \<and> cz = lastChunkCheckZ w then w
         else
           (let generated =
                  foldl (\<lambda>st x. foldl (\<lambda>st z. ensureChunk rnd st x z) st
                                   [cz - RENDER_DISTANCE_CHUNKS .. cz + RENDER_DISTANCE_CHUNKS])
                    (chunksRef w, rndPos w)
                    [cx - RENDER_DISTANCE_CHUNKS .. cx + RENDER_DISTANCE_CHUNKS];
                pruned = filter (\<lambda>(key, chunk). \<not> chebyshev chunk cx cz > RENDER_DISTANCE_CHUNKS + 1)
                           (fst generated)
            in \<lparr>lastChunkCheckX = cx, lastChunkCheckZ = cz, chunksRef = pruned,
                rndPos = snd generated\<rparr>))"

section \<open>Agents (the chunk loop of the render loop)\<close>

text \<open>The update of one crab, before it is submitted to the queue.\<close>

definition updateCrab :: "(nat \<Rightarrow> real) \<Rightarrow> nat \<Rightarrow> Crab \<Rightarrow> Crab \<times> nat" where
  "updateCrab rnd n crab =
     (if crab_state crab = idle then
        (let timer = crab_idleTimer crab - 1
         in if timer \<le> 0
            then (crab\<lparr>crab_idleTimer := timer, crab_state := walking,
                        crab_targetX := crab_x crab + randomRange (rnd n) (- 400) 400,
                        crab_targetZ := crab_z crab + randomRange (rnd (n + 1)) (- 200) 200\<rparr>, n + 2)
            else (crab\<lparr>crab_idleTimer := timer\<rparr>, n))
      else
        (let dx = crab_targetX crab - crab_x crab;
             dz = crab_targetZ crab - crab_z crab;
             dist = sqrt (dx * dx + dz * dz)
         in if dist < 10
            then (crab\<lparr>crab_state := idle, crab_idleTimer := randomRange (rnd n) 50 200\<rparr>, n + 1)
            else (crab\<lparr>crab_x := crab_x crab + (dx / dist) * crab_speed crab,
                        crab_z := crab_z crab + (dz / dist) * crab_speed crab\<rparr>, n)))"

text \<open>The update of one fish of a chunk, before it is submitted to the queue. The target
  is re-rolled when the fish is near it; the move along \<open>dx / dist\<close> follows in every case.\<close>

definition updateFish :: "(nat \<Rightarrow> real) \<Rightarrow> nat \<Rightarrow> Camera \<Rightarrow> Chunk \<Rightarrow> Fish \<Rightarrow> Fish \<times> nat" where
  "updateFish rnd n cam chunk fish =
     (let targetY1 = fish_targetY fish + (rnd n - 0.5) * 20;
          targetY = max (SURFACE_LEVEL + 100) (min (FLOOR_LEVEL - 100) targetY1);
          y = fish_y fish + (targetY - fish_y fish) * 0.01;
          dx = jsSub (Fin (fish_targetX fish)) (fish_x fish);
          dz = jsSub (Fin (fish_targetZ fish)) (fish_z fish);
          dist = jsSqrt (jsAdd (jsMul dx dx) (jsMul dz dz));
          (targetX, targetZ, n1) =
             (if jsLt dist (Fin 20)
              then (of_int (chunk_xIndex chunk) * CHUNK_SIZE + randomRange (rnd (n + 1)) 0 CHUNK_SIZE,
                    of_int (chunk_zIndex chunk) * CHUNK_SIZE + randomRange (rnd (n + 2)) 0 CHUNK_SIZE,
                    n + 3)
              else (fish_targetX fish, fish_targetZ fish, n + 1));
          x1 = jsAdd (fish_x fish) (jsMul (jsMul (jsDiv dx dist) (Fin (fish_speed fish))) (Fin 0.5));
          z1 = jsAdd (fish_z fish) (jsMul (jsMul (jsDiv dz dist) (Fin (fish_speed fish))) (Fin 0.5));
          camDx = jsSub x1 (Fin (cam_x cam));
          camDz = jsSub z1 (Fin (cam_z cam));
          distToCam = jsSqrt (jsAdd (jsMul camDx camDx) (jsMul camDz camDz));
          x2 = (if jsLt distToCam (Fin 200)
                then jsAdd x1 (if jsGt camDx (Fin 0) then Fin 5 else Fin (- 5))
                else x1)
      in (fish\<lparr>fish_targetY := targetY, fish_y := y, fish_targetX := targetX,
               fish_targetZ := targetZ, fish_x := x2, fish_z := z1\<rparr>, n1))"

section \<open>Keys and cells of the store\<close>

text \<open>The key and the grid cell of a stored entry.\<close>

definition cellOf :: "string \<times> Chunk \<Rightarrow> string \<times> int \<times> int" where
  "cellOf e = (fst e, chunk_xIndex (snd e), chunk_zIndex (snd e))"

text \<open>What \<open>ensureChunk\<close> does to the keys and cells of the store and to the position
  in the random source; the generation loops are evaluated on it in the proofs.\<close>

definition ensureCell ::
  "(nat \<Rightarrow> real) \<Rightarrow> (string \<times> int \<times> int) list \<times> nat \<Rightarrow> int \<Rightarrow> int \<Rightarrow> (string \<times> int \<times> int) list \<times> nat" where
  "ensureCell rnd st x z =
     (if chunkKey x z \<in> fst ` set (fst st) then st
      else (fst st @ [(chunkKey x z, x, z)], snd (generateChunk rnd (snd st) x z)))"

definition cellsOf :: "(string \<times> Chunk) list \<times> nat \<Rightarrow> (string \<times> int \<times> int) list \<times> nat" where
  "cellsOf st = (map cellOf (fst st), snd st)"

section \<open>Example inputs\<close>

text \<open>The initial camera moved to a position on the ground plane.\<close>

definition cameraAt :: "real \<Rightarrow> real \<Rightarrow> Camera" where
  "cameraAt x z = initialCamera\<lparr>cam_x := x, cam_z := z\<rparr>"


text \<open>Three submissions seen from the initial camera (z = -800): one at relative depth 0.5,
  one at 100 and one at 3501.\<close>

definition threeSubs :: "(real \<times> real \<times> real \<times> string) list" where
  "threeSubs = [(0, 1350, - 799.5, ''near''), (10, 1350, - 700, ''seen''), (20, 1350, 2701, ''far'')]"

text \<open>A chunk without entities, the fish that the generator makes from draws that are all
  1/2, an idle crab whose timer has run out, and the same crab walking at its target.\<close>

definition emptyChunk :: "int \<Rightarrow> int \<Rightarrow> Chunk" where
  "emptyChunk cx cz = \<lparr>chunk_id = chunkKey cx cz, chunk_xIndex = cx, chunk_zIndex = cz,
     chunk_plants = [], chunk_fishes = [], chunk_crabs = []\<rparr>"

definition centredFish :: Fish where
  "centredFish = fst (newFish (\<lambda>n. 1/2) 0 0 0)"

definition idleCrab :: Crab where
  "idleCrab = \<lparr>crab_id = 0.5, crab_x = 100, crab_y = FLOOR_LEVEL, crab_z = 200, crab_size = 30,
     crab_walkPhase = 0, crab_targetX = 100, crab_targetZ = 200, crab_speed = 2,
     crab_state = idle, crab_idleTimer = 0\<rparr>"

definition arrivedCrab :: Crab where
  "arrivedCrab = idleCrab\<lparr>crab_state := walking\<rparr>"

section \<open>Projection\<close>

lemma projDepth_ge_1: "1 \<le> projDepth point cameraZ focalLength"
  by (simp add: projDepth_def Let_def)

text \<open>
  C4, as stated: at zero relative depth the scale equals the focal length. It fails at the
  default focal length 800, where the depth is 800 and the scale is 1.
\<close>

theorem C4_scale_counterexample:
  "p3_z \<lparr>p3_x = 0, p3_y = 0, p3_z = 0\<rparr> = 0
   \<and> projDepth \<lparr>p3_x = 0, p3_y = 0, p3_z = 0\<rparr> 0 800 = 800
   \<and> p2_scale (project3DTo2D \<lparr>p3_x = 0, p3_y = 0, p3_z = 0\<rparr> 0 0 0 0 0 800) \<noteq> 800"
  by (simp add: project3DTo2D_def projDepth_def Let_def)

text \<open>
  C4, amended: for a point whose z equals the camera z and every focal length \<open>f\<close>, the
  depth is \<open>max 1 f\<close> (never below 1) and the scale is \<open>f / max 1 f\<close>: it equals the focal
  length exactly when the floor is engaged (\<open>f \<le> 1\<close>), and is 1 for every \<open>f \<ge> 1\<close>.
\<close>

theorem C4_projection_zero_depth:
  assumes "p3_z point = cameraZ"
  shows "projDepth point cameraZ f = max 1 f
     \<and> 1 \<le> projDepth point cameraZ f
     \<and> p2_scale (project3DTo2D point cameraX cameraY cameraZ centerX centerY f) = f / max 1 f
     \<and> (f \<le> 1 \<longrightarrow> p2_scale (project3DTo2D point cameraX cameraY cameraZ centerX centerY f) = f)
     \<and> (1 \<le> f \<longrightarrow> p2_scale (project3DTo2D point cameraX cameraY cameraZ centerX centerY f) = 1)"
  using assms by (auto simp add: project3DTo2D_def projDepth_def Let_def max_def)

text \<open>Witness of C4: a point at the camera depth, with focal lengths 800 and 1/2.\<close>

theorem C4_projection_zero_depth_witness:
  "p3_z \<lparr>p3_x = 5, p3_y = 7, p3_z = - 800\<rparr> = - 800
   \<and> projDepth \<lparr>p3_x = 5, p3_y = 7, p3_z = - 800\<rparr> (- 800) 800 = 800
   \<and> p2_scale (project3DTo2D \<lparr>p3_x = 5, p3_y = 7, p3_z = - 800\<rparr> 0 1210 (- 800) 400 300 800) = 1
   \<and> p2_scale (project3DTo2D \<lparr>p3_x = 5, p3_y = 7, p3_z = - 800\<rparr> 0 1210 (- 800) 400 300 (1/2)) = 1/2"
  using C4_projection_zero_depth [of "\<lparr>p3_x = 5, p3_y = 7, p3_z = - 800\<rparr>" "- 800" 800 0 1210 400 300]
    C4_projection_zero_depth [of "\<lparr>p3_x = 5, p3_y = 7, p3_z = - 800\<rparr>" "- 800" "1/2" 0 1210 400 300]
  by simp

section \<open>Camera physics\<close>

text \<open>The vertical part of a frame is the floor clamp applied to the position and velocity
  after the jump statement and gravity; nothing else of the frame touches it.\<close>

lemma cameraPhysics_vertical:
  "(cam_y (cameraPhysics isChatOpen keys ui mouse env cam),
    cam_velY (cameraPhysics isChatOpen keys ui mouse env cam),
    cam_isGrounded (cameraPhysics isChatOpen keys ui mouse env cam))
   = floorClamp (cam_y cam + (fst (jumpImpulse isChatOpen keys ui env cam) + GRAVITY * env_gravityMult env))
       (fst (jumpImpulse isChatOpen keys ui env cam) + GRAVITY * env_gravityMult env)"
  unfolding cameraPhysics_def Let_def split_def
  by (simp split del: if_split)

lemma floorClamp_invariant:
  assumes "(y', v', g') = floorClamp y v"
  shows "y' \<le> FLOOR_LEVEL - PLAYER_HEIGHT \<and> (g' \<longrightarrow> y' = FLOOR_LEVEL - PLAYER_HEIGHT \<and> v' = 0)"
  using assms by (simp add: floorClamp_def Let_def split: if_splits)

text \<open>
  C10: after every frame of the camera physics the camera's y is at most
  FLOOR_LEVEL - PLAYER_HEIGHT, and whenever the grounded flag is set the camera's y is
  exactly that level and the vertical velocity is zero, for every input, environment and
  previous camera state.
\<close>

theorem C10_floor_clamp_invariant:
  "cam_y (cameraPhysics isChatOpen keys ui mouse env cam) \<le> FLOOR_LEVEL - PLAYER_HEIGHT
   \<and> (cam_isGrounded (cameraPhysics isChatOpen keys ui mouse env cam) \<longrightarrow>
        cam_y (cameraPhysics isChatOpen keys ui mouse env cam) = FLOOR_LEVEL - PLAYER_HEIGHT
        \<and> cam_velY (cameraPhysics isChatOpen keys ui mouse env cam) = 0)"
  by (rule floorClamp_invariant) (rule cameraPhysics_vertical)

lemma resting_frame:
  "(cam_y (cameraPhysics False {} noUi centreMouse initialEnv restingCamera),
    cam_velY (cameraPhysics False {} noUi centreMouse initialEnv restingCamera),
    cam_isGrounded (cameraPhysics False {} noUi centreMouse initialEnv restingCamera))
   = (FLOOR_LEVEL - PLAYER_HEIGHT, 0, True)"
  unfolding cameraPhysics_vertical
  by (simp add: floorClamp_def jumpImpulse_def Let_def
        restingCamera_def initialCamera_def noUi_def initialEnv_def GRAVITY_def)

text \<open>Witness of C10: a frame without input from the camera at rest on the floor.\<close>

theorem C10_floor_clamp_invariant_witness:
  "cam_isGrounded (cameraPhysics False {} noUi centreMouse initialEnv restingCamera)
   \<and> cam_y (cameraPhysics False {} noUi centreMouse initialEnv restingCamera) = FLOOR_LEVEL - PLAYER_HEIGHT
   \<and> cam_velY (cameraPhysics False {} noUi centreMouse initialEnv restingCamera) = 0"
proof -
  have g: "cam_isGrounded (cameraPhysics False {} noUi centreMouse initialEnv restingCamera)"
    using resting_frame by simp
  from C10_floor_clamp_invariant [of False "{}" noUi centreMouse initialEnv restingCamera] g
  show ?thesis by simp
qed

lemma jumping_frame:
  "(cam_y (cameraPhysics False {} (noUi\<lparr>ui_jump := True\<rparr>) centreMouse initialEnv restingCamera),
    cam_velY (cameraPhysics False {} (noUi\<lparr>ui_jump := True\<rparr>) centreMouse initialEnv restingCamera),
    cam_isGrounded (cameraPhysics False {} (noUi\<lparr>ui_jump := True\<rparr>) centreMouse initialEnv restingCamera))
   = (1192.8, - 17.2, False)"
  unfolding cameraPhysics_vertical
  by (simp add: floorClamp_def jumpImpulse_def Let_def
        restingCamera_def initialCamera_def noUi_def initialEnv_def GRAVITY_def JUMP_FORCE_def
        FLOOR_LEVEL_def PLAYER_HEIGHT_def)

text \<open>
  C8, as stated: one frame with the jump intent leaves the vertical velocity at
  -JUMP_FORCE * gravityMult. It fails for the camera standing at rest with gravityMult = 1:
  the frame adds gravity after the impulse, and the velocity after the frame is -17.2.
\<close>

theorem C8_jump_velocity_counterexample:
  "cam_isGrounded restingCamera \<and> cam_velX restingCamera = 0 \<and> cam_velY restingCamera = 0
   \<and> cam_velZ restingCamera = 0 \<and> ui_jump (noUi\<lparr>ui_jump := True\<rparr>)
   \<and> cam_velY (cameraPhysics False {} (noUi\<lparr>ui_jump := True\<rparr>) centreMouse initialEnv restingCamera)
       = - 17.2
   \<and> cam_velY (cameraPhysics False {} (noUi\<lparr>ui_jump := True\<rparr>) centreMouse initialEnv restingCamera)
       \<noteq> - JUMP_FORCE * env_gravityMult initialEnv"
  using jumping_frame
  by (simp add: restingCamera_def initialCamera_def noUi_def initialEnv_def JUMP_FORCE_def)

text \<open>
  C8, amended: for a camera grounded on the floor, in a frame with the jump intent active
  and the chat closed, the jump statement sets the vertical velocity to
  -JUMP_FORCE * gravityMult and clears the grounded flag; the same frame then adds gravity,
  so with gravityMult \<ge> 0 the frame ends with vertical velocity
  (GRAVITY - JUMP_FORCE) * gravityMult and the grounded flag cleared. With a negative
  multiplier the impulse points into the floor and the clamp ends the frame grounded with
  vertical velocity 0.
\<close>

theorem C8_jump_impulse:
  assumes "\<not> isChatOpen" and "''Space'' \<in> keys \<or> ui_jump ui"
    and "cam_isGrounded cam" and "cam_y cam = FLOOR_LEVEL - PLAYER_HEIGHT"
  shows "jumpImpulse isChatOpen keys ui env cam = (- JUMP_FORCE * env_gravityMult env, False)
    \<and> (0 \<le> env_gravityMult env \<longrightarrow>
         cam_velY (cameraPhysics isChatOpen keys ui mouse env cam)
           = (GRAVITY - JUMP_FORCE) * env_gravityMult env
         \<and> \<not> cam_isGrounded (cameraPhysics isChatOpen keys ui mouse env cam))
    \<and> (env_gravityMult env < 0 \<longrightarrow>
         cam_velY (cameraPhysics isChatOpen keys ui mouse env cam) = 0
         \<and> cam_isGrounded (cameraPhysics isChatOpen keys ui mouse env cam))"
proof -
  let ?g = "env_gravityMult env"
  let ?c = "cameraPhysics isChatOpen keys ui mouse env cam"
  define w where "w = (GRAVITY - JUMP_FORCE) * ?g"
  have j: "jumpImpulse isChatOpen keys ui env cam = (- JUMP_FORCE * ?g, False)"
    using assms by (simp add: jumpImpulse_def)
  have v: "- JUMP_FORCE * ?g + GRAVITY * ?g = w"
    by (simp add: w_def algebra_simps)
  have s: "(0 < w) = (?g < 0)"
    by (simp add: w_def GRAVITY_def JUMP_FORCE_def zero_less_mult_iff)
  have "(cam_y ?c, cam_velY ?c, cam_isGrounded ?c) = floorClamp (cam_y cam + w) w"
    unfolding cameraPhysics_vertical j fst_conv v ..
  also have "\<dots> = (if ?g < 0 then (FLOOR_LEVEL - PLAYER_HEIGHT, 0, True)
      else (FLOOR_LEVEL - PLAYER_HEIGHT + w, w, False))"
    by (simp add: floorClamp_def Let_def s assms(4))
  finally have "cam_velY ?c = (if ?g < 0 then 0 else w)" and "cam_isGrounded ?c = (?g < 0)"
    by (simp_all split: if_splits)
  with j show ?thesis by (simp add: w_def)
qed

text \<open>Witness of C8: the jump button pressed, camera at rest on the floor, gravityMult = 1.\<close>

theorem C8_jump_impulse_witness:
  "\<not> False \<and> ui_jump (noUi\<lparr>ui_jump := True\<rparr>) \<and> cam_isGrounded restingCamera
   \<and> cam_y restingCamera = FLOOR_LEVEL - PLAYER_HEIGHT \<and> 0 \<le> env_gravityMult initialEnv
   \<and> cam_velY (cameraPhysics False {} (noUi\<lparr>ui_jump := True\<rparr>) centreMouse initialEnv restingCamera)
       = (GRAVITY - JUMP_FORCE) * env_gravityMult initialEnv
   \<and> \<not> cam_isGrounded (cameraPhysics False {} (noUi\<lparr>ui_jump := True\<rparr>) centreMouse initialEnv restingCamera)"
proof -
  have h: "ui_jump (noUi\<lparr>ui_jump := True\<rparr>)" "cam_isGrounded restingCamera"
    "cam_y restingCamera = FLOOR_LEVEL - PLAYER_HEIGHT" "0 \<le> env_gravityMult initialEnv"
    by (simp_all add: noUi_def restingCamera_def initialCamera_def initialEnv_def)
  from C8_jump_impulse [of False "{}" "noUi\<lparr>ui_jump := True\<rparr>" restingCamera initialEnv centreMouse] h
  show ?thesis by simp
qed

section \<open>Render queue\<close>

lemma pushRenderItem_culled:
  "itemZ - cam_z cam < 1 \<or> itemZ - cam_z cam > VISIBILITY_DEPTH \<Longrightarrow>
   pushRenderItem cam fogDensity q itemX itemY itemZ drawFn = q"
  by (auto simp add: pushRenderItem_def Let_def)

lemma pushRenderItem_kept:
  "\<not> (itemZ - cam_z cam < 1 \<or> itemZ - cam_z cam > VISIBILITY_DEPTH) \<Longrightarrow>
   \<exists>item. pushRenderItem cam fogDensity q itemX itemY itemZ drawFn = q @ [item]
     \<and> ri_z item = itemZ - cam_z cam \<and> cl_drawFn (ri_draw item) = drawFn"
  by (simp add: pushRenderItem_def Let_def)

lemma foldl_push_filter:
  "foldl (\<lambda>q (itemX, itemY, itemZ, drawFn). pushRenderItem cam fogDensity q itemX itemY itemZ drawFn) q subs
   = foldl (\<lambda>q (itemX, itemY, itemZ, drawFn). pushRenderItem cam fogDensity q itemX itemY itemZ drawFn) q
       (filter (\<lambda>s. \<not> culled cam s) subs)"
proof (induction subs arbitrary: q)
  case Nil
  show ?case by simp
next
  case (Cons s subs)
  obtain itemX itemY itemZ drawFn where s: "s = (itemX, itemY, itemZ, drawFn)"
    by (cases s) auto
  show ?case
  proof (cases "culled cam s")
    case True
    then have "pushRenderItem cam fogDensity q itemX itemY itemZ drawFn = q"
      using s by (intro pushRenderItem_culled) (simp add: culled_def)
    with True s Cons.IH show ?thesis by simp
  next
    case False
    with s Cons.IH show ?thesis by simp
  qed
qed

lemma foldl_push_range:
  assumes "\<forall>item \<in> set q. 1 \<le> ri_z item \<and> ri_z item \<le> VISIBILITY_DEPTH"
  shows "\<forall>item \<in> set (foldl (\<lambda>q (itemX, itemY, itemZ, drawFn).
            pushRenderItem cam fogDensity q itemX itemY itemZ drawFn) q subs).
          1 \<le> ri_z item \<and> ri_z item \<le> VISIBILITY_DEPTH"
  using assms
proof (induction subs arbitrary: q)
  case Nil
  then show ?case by simp
next
  case (Cons s subs)
  obtain itemX itemY itemZ drawFn where s: "s = (itemX, itemY, itemZ, drawFn)"
    by (cases s) auto
  have "\<forall>item \<in> set (pushRenderItem cam fogDensity q itemX itemY itemZ drawFn).
          1 \<le> ri_z item \<and> ri_z item \<le> VISIBILITY_DEPTH"
    using Cons.prems by (auto simp add: pushRenderItem_def Let_def)
  from Cons.IH [OF this] s show ?case by simp
qed

lemma mset_insertBy: "mset (insertBy cmp a xs) = add_mset a (mset xs)"
  by (induction xs) auto

lemma mset_sortBy: "mset (sortBy cmp xs) = mset xs"
  by (induction xs) (auto simp add: sortBy_def mset_insertBy)

lemma set_insertBy: "set (insertBy cmp a xs) = insert a (set xs)"
  by (induction xs) auto

lemma sorted_insertBy_z:
  "sorted_wrt (\<lambda>a b. ri_z b \<le> ri_z a) xs \<Longrightarrow>
   sorted_wrt (\<lambda>a b. ri_z b \<le> ri_z a) (insertBy (\<lambda>a b. ri_z b - ri_z a) x xs)"
  by (induction xs) (auto simp add: set_insertBy)

lemma sorted_sortQueue: "sorted_wrt (\<lambda>a b. ri_z b \<le> ri_z a) (sortQueue q)"
  by (induction q) (auto simp add: sortQueue_def sortBy_def sorted_insertBy_z)

lemma set_sortQueue: "set (sortQueue q) = set q"
  using mset_sortBy [of "\<lambda>a b. ri_z b - ri_z a" q]
  by (metis sortQueue_def set_mset_mset)

text \<open>
  C2: a submission whose relative depth \<open>itemZ - cam.z\<close> is below 1 or above
  VISIBILITY_DEPTH leaves the queue unchanged, in particular at relative depth 0.5 and at
  VISIBILITY_DEPTH + 1; the executed queue of a frame is the executed queue of the frame's
  submissions that are not culled, and every executed item has a relative depth between 1
  and VISIBILITY_DEPTH.
\<close>

theorem C2_render_queue_culling:
  "(itemZ - cam_z cam < 1 \<or> itemZ - cam_z cam > VISIBILITY_DEPTH \<longrightarrow>
      pushRenderItem cam fogDensity q itemX itemY itemZ drawFn = q)
   \<and> pushRenderItem cam fogDensity q itemX itemY (cam_z cam + 0.5) drawFn = q
   \<and> pushRenderItem cam fogDensity q itemX itemY (cam_z cam + (VISIBILITY_DEPTH + 1)) drawFn = q
   \<and> executeQueue cam centerX centerY (submitAll cam fogDensity subs)
       = executeQueue cam centerX centerY (submitAll cam fogDensity (filter (\<lambda>s. \<not> culled cam s) subs))
   \<and> (\<forall>item \<in> set (sortQueue (submitAll cam fogDensity subs)).
         1 \<le> ri_z item \<and> ri_z item \<le> VISIBILITY_DEPTH)"
proof -
  have a: "itemZ - cam_z cam < 1 \<or> itemZ - cam_z cam > VISIBILITY_DEPTH \<longrightarrow>
      pushRenderItem cam fogDensity q itemX itemY itemZ drawFn = q"
    by (auto simp add: pushRenderItem_def Let_def)
  have b: "pushRenderItem cam fogDensity q itemX itemY (cam_z cam + 0.5) drawFn = q"
    by (rule pushRenderItem_culled) simp
  have c: "pushRenderItem cam fogDensity q itemX itemY (cam_z cam + (VISIBILITY_DEPTH + 1)) drawFn = q"
    by (rule pushRenderItem_culled) simp
  have d: "submitAll cam fogDensity subs = submitAll cam fogDensity (filter (\<lambda>s. \<not> culled cam s) subs)"
    unfolding submitAll_def by (rule foldl_push_filter)
  have e: "\<forall>item \<in> set (submitAll cam fogDensity subs). 1 \<le> ri_z item \<and> ri_z item \<le> VISIBILITY_DEPTH"
    unfolding submitAll_def by (rule foldl_push_range) simp
  from a b c e show ?thesis
    using d by (simp add: set_sortQueue)
qed

lemma threeSubs_queue:
  "map (\<lambda>item. (ri_z item, cl_drawFn (ri_draw item))) (sortQueue (submitAll initialCamera 1 threeSubs))
     = [(100, ''seen'')]"
  by (simp add: threeSubs_def submitAll_def pushRenderItem_def Let_def initialCamera_def
      VISIBILITY_DEPTH_def sortQueue_def sortBy_def)

text \<open>Witness of C2: of the three example submissions only the one at depth 100 is executed.\<close>

theorem C2_render_queue_culling_witness:
  "- 799.5 - cam_z initialCamera < 1
   \<and> pushRenderItem initialCamera 1 [] 0 1350 (- 799.5) ''near'' = []
   \<and> map (\<lambda>item. (ri_z item, cl_drawFn (ri_draw item))) (sortQueue (submitAll initialCamera 1 threeSubs))
        = [(100, ''seen'')]
   \<and> executeQueue initialCamera 400 300 (submitAll initialCamera 1 threeSubs)
        = executeQueue initialCamera 400 300
            (submitAll initialCamera 1 (filter (\<lambda>s. \<not> culled initialCamera s) threeSubs))"
proof -
  have h: "- 799.5 - cam_z initialCamera < 1" by (simp add: initialCamera_def)
  from C2_render_queue_culling [of "- 799.5" initialCamera 1 "[]" 0 1350 "''near''" 400 300 threeSubs] h
    threeSubs_queue
  show ?thesis by blast
qed

text \<open>
  C3: the sorted queue is in descending order of relative depth and is a permutation of the
  queue, the draws are executed in that order, and three surviving submissions at relative
  depths 50, 10 and 200 are executed in the order 200, 50, 10.
\<close>

theorem C3_render_queue_ordering:
  "sorted_wrt (\<lambda>a b. ri_z a \<ge> ri_z b) (sortQueue (q :: 'd RenderItem list))
   \<and> mset (sortQueue q) = mset q
   \<and> map dc_drawFn (executeQueue cam centerX centerY q) = map (\<lambda>item. cl_drawFn (ri_draw item)) (sortQueue q)
   \<and> map ri_z (sortQueue (submitAll cam fogDensity
        [(x1, y1, cam_z cam + 50, d1 :: 'd), (x2, y2, cam_z cam + 10, d2), (x3, y3, cam_z cam + 200, d3)]))
      = [200, 50, 10]
   \<and> map dc_drawFn (executeQueue cam centerX centerY (submitAll cam fogDensity
        [(x1, y1, cam_z cam + 50, d1), (x2, y2, cam_z cam + 10, d2), (x3, y3, cam_z cam + 200, d3)]))
      = [d3, d1, d2]"
proof -
  have a: "sorted_wrt (\<lambda>a b. ri_z a \<ge> ri_z b) (sortQueue q)"
    by (rule sorted_sortQueue)
  have b: "mset (sortQueue q) = mset q"
    by (simp add: sortQueue_def mset_sortBy)
  have c: "map dc_drawFn (executeQueue cam centerX centerY r) = map (\<lambda>item. cl_drawFn (ri_draw item)) (sortQueue r)" for r :: "'d RenderItem list"
    by (simp add: executeQueue_def runDraw_def Let_def comp_def)
  let ?q = "sortQueue (submitAll cam fogDensity
        [(x1, y1, cam_z cam + 50, d1), (x2, y2, cam_z cam + 10, d2), (x3, y3, cam_z cam + 200, d3)])"
  have d: "map (\<lambda>item. (ri_z item, cl_drawFn (ri_draw item))) ?q = [(200, d3), (50, d1), (10, d2)]"
    by (simp add: submitAll_def pushRenderItem_def Let_def VISIBILITY_DEPTH_def sortQueue_def sortBy_def)
  from d have d1: "map ri_z ?q = [200, 50, 10]"
    by (auto simp add: map_eq_Cons_conv)
  from d have d2: "map (\<lambda>item. cl_drawFn (ri_draw item)) ?q = [d3, d1, d2]"
    by (auto simp add: map_eq_Cons_conv)
  from a b c [of q] d1 d2 c [of "submitAll cam fogDensity
        [(x1, y1, cam_z cam + 50, d1), (x2, y2, cam_z cam + 10, d2), (x3, y3, cam_z cam + 200, d3)]"]
  show ?thesis by simp
qed

text \<open>Witness of C3: the example order at the initial camera.\<close>

theorem C3_render_queue_ordering_witness:
  "map dc_drawFn (executeQueue initialCamera 400 300 (submitAll initialCamera 1
      [(0, 0, - 750, ''a''), (0, 0, - 790, ''b''), (0, 0, - 600, ''c'')])) = [''c'', ''a'', ''b'']"
  using C3_render_queue_ordering [where q = "[]" and cam = initialCamera and centerX = 400
      and centerY = 300 and fogDensity = 1 and ?x1.0 = 0 and ?y1.0 = 0 and ?d1.0 = "''a''"
      and ?x2.0 = 0 and ?y2.0 = 0 and ?d2.0 = "''b''" and ?x3.0 = 0 and ?y3.0 = 0 and ?d3.0 = "''c''"]
  by (simp add: initialCamera_def)

section \<open>Generation\<close>

lemma rollPlantType_cases: "rollPlantType typeRoll = (if typeRoll > 0.7 then stalk else ribbon)"
  by (simp add: rollPlantType_def)

lemma createPlant_type:
  "plant_type (fst (createPlant rnd n baseX baseZ)) = rollPlantType (rnd n)"
  by (simp add: createPlant_def Let_def split_def)

lemma pushTimes_all:
  assumes "\<And>m. P (fst (g m))"
  shows "\<forall>a \<in> set (fst (pushTimes k g n)). P a"
proof (induction k arbitrary: n)
  case 0
  show ?case by simp
next
  case (Suc k)
  from Suc [of "snd (g n)"] assms [of n] show ?case
    by (simp add: split_def Let_def)
qed

lemma length_pushTimes: "length (fst (pushTimes k g n)) = k"
  by (induction k arbitrary: n) (simp_all add: split_def Let_def)

lemma generateChunk_plants:
  "chunk_plants (fst (generateChunk rnd n cx cz))
     = fst (pushTimes PLANTS_PER_CHUNK
         (\<lambda>m. createPlant rnd m (of_int cx * CHUNK_SIZE) (of_int cz * CHUNK_SIZE)) n)"
  by (simp add: generateChunk_def Let_def split_def)

text \<open>
  C6: for every roll the plant type is stalk when the roll exceeds 0.7 and ribbon
  otherwise; the bulb branch is never taken, so no plant made by \<open>createPlant\<close> and no
  plant of a generated chunk has type bulb.
\<close>

theorem C6_plant_type_dead_branch:
  "rollPlantType typeRoll = (if typeRoll > 0.7 then stalk else ribbon)
   \<and> rollPlantType typeRoll \<noteq> bulb
   \<and> plant_type (fst (createPlant rnd n baseX baseZ)) = (if rnd n > 0.7 then stalk else ribbon)
   \<and> (\<forall>p \<in> set (chunk_plants (fst (generateChunk rnd n cx cz))). plant_type p \<noteq> bulb)"
proof -
  have a: "rollPlantType r = (if r > 0.7 then stalk else ribbon)" for r
    by (rule rollPlantType_cases)
  have b: "rollPlantType r \<noteq> bulb" for r
    by (simp add: a)
  have c: "plant_type (fst (createPlant rnd m bx bz)) \<noteq> bulb" for m bx bz
    by (simp add: createPlant_type b)
  have d: "\<forall>p \<in> set (chunk_plants (fst (generateChunk rnd n cx cz))). plant_type p \<noteq> bulb"
    unfolding generateChunk_plants by (rule pushTimes_all) (rule c)
  from a [of typeRoll] b [of typeRoll] d show ?thesis
    by (simp add: createPlant_type a)
qed

text \<open>Witness of C6: a chunk generated from draws that are all 0.95 has 40 plants, none a bulb.\<close>

theorem C6_plant_type_dead_branch_witness:
  "rollPlantType 0.95 = stalk
   \<and> length (chunk_plants (fst (generateChunk (\<lambda>n. 0.95) 0 0 0))) = 40
   \<and> bulb \<notin> set (map plant_type (chunk_plants (fst (generateChunk (\<lambda>n. 0.95) 0 0 0))))"
proof -
  have l: "length (chunk_plants (fst (generateChunk (\<lambda>n. 0.95) 0 0 0))) = 40"
    by (simp add: generateChunk_plants length_pushTimes PLANTS_PER_CHUNK_def)
  from C6_plant_type_dead_branch [of "0.95" "\<lambda>n. 0.95" 0 0 0 0 0] l
  show ?thesis by auto
qed

section \<open>Chunk store\<close>

lemma lastCheck_manageChunks:
  "(lastChunkCheckX (manageChunks rnd cam w), lastChunkCheckZ (manageChunks rnd cam w)) = cameraCell cam"
  by (cases "cameraCell cam") (auto simp add: manageChunks_def Let_def)

lemma manageChunks_same_cell:
  "cameraCell cam = (lastChunkCheckX w, lastChunkCheckZ w) \<Longrightarrow> manageChunks rnd cam w = w"
  by (simp add: manageChunks_def)

text \<open>
  C7: when the camera's chunk cell is the same as at the previous call, the second call of
  \<open>manageChunks\<close> returns the state unchanged: the same stored map, and no draw from the
  random source (no chunk generated).
\<close>

theorem C7_sync_idempotent:
  assumes "cameraCell cam2 = cameraCell cam1"
  shows "manageChunks rnd cam2 (manageChunks rnd cam1 w) = manageChunks rnd cam1 w
    \<and> chunksRef (manageChunks rnd cam2 (manageChunks rnd cam1 w)) = chunksRef (manageChunks rnd cam1 w)
    \<and> rndPos (manageChunks rnd cam2 (manageChunks rnd cam1 w)) = rndPos (manageChunks rnd cam1 w)"
proof -
  have "manageChunks rnd cam2 (manageChunks rnd cam1 w) = manageChunks rnd cam1 w"
    by (rule manageChunks_same_cell) (simp add: assms lastCheck_manageChunks)
  then show ?thesis by simp
qed


lemma cameraCell_examples:
  "cameraCell (cameraAt 100 200) = (0, 0)" "cameraCell (cameraAt 2900 50) = (0, 0)"
  "cameraCell (cameraAt 3100 200) = (1, 0)" "cameraCell initialCamera = (0, - 1)"
  by (simp_all add: cameraCell_def cameraAt_def initialCamera_def CHUNK_SIZE_def)

text \<open>Witness of C7: two camera positions inside cell (0, 0), from the initial state.\<close>

theorem C7_sync_idempotent_witness:
  "cameraCell (cameraAt 2900 50) = cameraCell (cameraAt 100 200)
   \<and> manageChunks (\<lambda>n. 1/2) (cameraAt 2900 50) (manageChunks (\<lambda>n. 1/2) (cameraAt 100 200) initialWorld)
       = manageChunks (\<lambda>n. 1/2) (cameraAt 100 200) initialWorld"
  using C7_sync_idempotent [of "cameraAt 2900 50" "cameraAt 100 200" "\<lambda>n. 1/2" initialWorld]
  by (simp add: cameraCell_examples)

lemma upto_examples: "[-1..1] = [-1,0,1::int]" "[0..2] = [0,1,2::int]"
  by (simp_all add: upto.simps)

lemma generateChunk_index:
  "chunk_xIndex (fst (generateChunk rnd n cx cz)) = cx"
  "chunk_zIndex (fst (generateChunk rnd n cx cz)) = cz"
  "chunk_id (fst (generateChunk rnd n cx cz)) = chunkKey cx cz"
  by (simp_all add: generateChunk_def Let_def split_def)

lemma chunkKey_examples:
  "chunkKey (- 1) (- 1) = ''-1,-1''" "chunkKey (- 1) 0 = ''-1,0''" "chunkKey (- 1) 1 = ''-1,1''"
  "chunkKey 0 (- 1) = ''0,-1''" "chunkKey 0 0 = ''0,0''" "chunkKey 0 1 = ''0,1''"
  "chunkKey 1 (- 1) = ''1,-1''" "chunkKey 1 0 = ''1,0''" "chunkKey 1 1 = ''1,1''"
  "chunkKey 2 (- 1) = ''2,-1''" "chunkKey 2 0 = ''2,0''" "chunkKey 2 1 = ''2,1''"
  by (simp_all add: chunkKey_def showInt_def showNat.simps)

lemma fst_image_cellOf: "fst ` cellOf ` set xs = fst ` set xs"
  by (simp add: image_image cellOf_def)

lemma cellOf_pair: "cellOf (k, c) = (k, chunk_xIndex c, chunk_zIndex c)"
  by (simp add: cellOf_def)

lemma cellsOf_ensureChunk: "cellsOf (ensureChunk rnd st x z) = ensureCell rnd (cellsOf st) x z"
proof -
  have mem: "(map_of (fst st) (chunkKey x z) \<noteq> None) = (chunkKey x z \<in> fst ` set (fst st))"
    by (simp add: map_of_eq_None_iff)
  show ?thesis
    unfolding ensureChunk_def ensureCell_def cellsOf_def Let_def split_def mem
    by (simp add: fst_image_cellOf cellOf_pair generateChunk_index)
qed

lemma cellsOf_inner:
  "cellsOf (foldl (\<lambda>st z. ensureChunk rnd st x z) st zs)
     = foldl (\<lambda>st z. ensureCell rnd st x z) (cellsOf st) zs"
  by (induction zs arbitrary: st) (simp_all add: cellsOf_ensureChunk)

lemma cellsOf_outer:
  "cellsOf (foldl (\<lambda>st x. foldl (\<lambda>st z. ensureChunk rnd st x z) st zs) st xs)
     = foldl (\<lambda>st x. foldl (\<lambda>st z. ensureCell rnd st x z) st zs) (cellsOf st) xs"
  by (induction xs arbitrary: st) (simp_all add: cellsOf_inner)

lemma ensureChunk_append: "\<exists>new. fst (ensureChunk rnd st x z) = fst st @ new"
  by (simp add: ensureChunk_def Let_def split_def)

lemma inner_append: "\<exists>new. fst (foldl (\<lambda>st z. ensureChunk rnd st x z) st zs) = fst st @ new"
proof (induction zs arbitrary: st)
  case Nil
  show ?case by simp
next
  case (Cons z zs)
  obtain n1 where n1: "fst (ensureChunk rnd st x z) = fst st @ n1"
    using ensureChunk_append by blast
  obtain n2 where "fst (foldl (\<lambda>st z. ensureChunk rnd st x z) (ensureChunk rnd st x z) zs)
      = fst (ensureChunk rnd st x z) @ n2"
    using Cons by blast
  then show ?case by (simp add: n1)
qed

lemma outer_append:
  "\<exists>new. fst (foldl (\<lambda>st x. foldl (\<lambda>st z. ensureChunk rnd st x z) st zs) st xs) = fst st @ new"
proof (induction xs arbitrary: st)
  case Nil
  show ?case by simp
next
  case (Cons x xs)
  let ?st = "foldl (\<lambda>st z. ensureChunk rnd st x z) st zs"
  obtain n1 where n1: "fst ?st = fst st @ n1"
    using inner_append by blast
  obtain n2 where "fst (foldl (\<lambda>st x. foldl (\<lambda>st z. ensureChunk rnd st x z) st zs) ?st xs)
      = fst ?st @ n2"
    using Cons by blast
  then show ?case by (simp add: n1)
qed

lemma cells_first:
  "fst (foldl (\<lambda>st x. foldl (\<lambda>st z. ensureCell rnd st x z) st [- 1, 0, 1]) ([], n) [- 1, 0, 1]) =
     [(''-1,-1'', - 1, - 1), (''-1,0'', - 1, 0), (''-1,1'', - 1, 1),
      (''0,-1'', 0, - 1), (''0,0'', 0, 0), (''0,1'', 0, 1),
      (''1,-1'', 1, - 1), (''1,0'', 1, 0), (''1,1'', 1, 1)]"
  by (simp add: ensureCell_def chunkKey_examples)

lemma cells_second:
  "foldl (\<lambda>st x. foldl (\<lambda>st z. ensureCell rnd st x z) st [- 1, 0, 1])
     ([(''-1,-1'', - 1, - 1), (''-1,0'', - 1, 0), (''-1,1'', - 1, 1),
       (''0,-1'', 0, - 1), (''0,0'', 0, 0), (''0,1'', 0, 1),
       (''1,-1'', 1, - 1), (''1,0'', 1, 0), (''1,1'', 1, 1)], n) [0, 1, 2] =
     ([(''-1,-1'', - 1, - 1), (''-1,0'', - 1, 0), (''-1,1'', - 1, 1),
       (''0,-1'', 0, - 1), (''0,0'', 0, 0), (''0,1'', 0, 1),
       (''1,-1'', 1, - 1), (''1,0'', 1, 0), (''1,1'', 1, 1),
       (''2,-1'', 2, - 1), (''2,0'', 2, 0), (''2,1'', 2, 1)],
      snd (generateChunk rnd (snd (generateChunk rnd (snd (generateChunk rnd n 2 (- 1))) 2 0)) 2 1))"
  by (simp add: ensureCell_def chunkKey_examples)

lemma manageChunks_trigger:
  assumes "cameraCell cam = (cx, cz)" and "\<not> (cx = lastChunkCheckX w \<and> cz = lastChunkCheckZ w)"
  shows "manageChunks rnd cam w =
     \<lparr>lastChunkCheckX = cx, lastChunkCheckZ = cz,
      chunksRef = filter (\<lambda>(key, chunk). \<not> chebyshev chunk cx cz > RENDER_DISTANCE_CHUNKS + 1)
        (fst (foldl (\<lambda>st x. foldl (\<lambda>st z. ensureChunk rnd st x z) st
                 [cz - RENDER_DISTANCE_CHUNKS .. cz + RENDER_DISTANCE_CHUNKS])
               (chunksRef w, rndPos w) [cx - RENDER_DISTANCE_CHUNKS .. cx + RENDER_DISTANCE_CHUNKS])),
      rndPos = snd (foldl (\<lambda>st x. foldl (\<lambda>st z. ensureChunk rnd st x z) st
                 [cz - RENDER_DISTANCE_CHUNKS .. cz + RENDER_DISTANCE_CHUNKS])
               (chunksRef w, rndPos w) [cx - RENDER_DISTANCE_CHUNKS .. cx + RENDER_DISTANCE_CHUNKS])\<rparr>"
  using assms by (auto simp add: manageChunks_def Let_def)

lemma prune_keeps_all:
  assumes "\<forall>c \<in> set (map cellOf xs). max \<bar>fst (snd c) - cx\<bar> \<bar>snd (snd c) - cz\<bar> \<le> r"
  shows "filter (\<lambda>(key, chunk). \<not> chebyshev chunk cx cz > r) xs = xs"
  using assms by (induction xs) (auto simp add: cellOf_def chebyshev_def)

lemma ranges:
  "[0 - RENDER_DISTANCE_CHUNKS .. 0 + RENDER_DISTANCE_CHUNKS] = [- 1, 0, 1]"
  "[1 - RENDER_DISTANCE_CHUNKS .. 1 + RENDER_DISTANCE_CHUNKS] = [0, 1, 2]"
  by (simp_all add: RENDER_DISTANCE_CHUNKS_def upto.simps)

lemma sync_scenario:
  fixes rnd :: "nat \<Rightarrow> real" and cam0 cam1 :: Camera
  assumes c0: "cameraCell cam0 = (0, 0)" and c1: "cameraCell cam1 = (1, 0)"
  defines "w1 \<equiv> manageChunks rnd cam0 initialWorld"
  defines "w2 \<equiv> manageChunks rnd cam1 w1"
  shows "map cellOf (chunksRef w1) =
     [(''-1,-1'', - 1, - 1), (''-1,0'', - 1, 0), (''-1,1'', - 1, 1),
      (''0,-1'', 0, - 1), (''0,0'', 0, 0), (''0,1'', 0, 1),
      (''1,-1'', 1, - 1), (''1,0'', 1, 0), (''1,1'', 1, 1)]"
    and "\<exists>new. chunksRef w2 = chunksRef w1 @ new
          \<and> map cellOf new = [(''2,-1'', 2, - 1), (''2,0'', 2, 0), (''2,1'', 2, 1)]"
    and "rndPos w2 = snd (generateChunk rnd (snd (generateChunk rnd
            (snd (generateChunk rnd (rndPos w1) 2 (- 1))) 2 0)) 2 1)"
proof -
  let ?nine = "[(''-1,-1'', - 1, - 1), (''-1,0'', - 1, 0), (''-1,1'', - 1, 1),
      (''0,-1'', 0, - 1), (''0,0'', 0, 0), (''0,1'', 0, 1),
      (''1,-1'', 1, - 1), (''1,0'', 1, 0), (''1,1'', 1, 1 :: int)] :: (string \<times> int \<times> int) list"
  let ?three = "[(''2,-1'', 2, - 1), (''2,0'', 2, 0), (''2,1'', 2, 1 :: int)] :: (string \<times> int \<times> int) list"
  let ?gen = "\<lambda>st xs. foldl (\<lambda>st x. foldl (\<lambda>st z. ensureChunk rnd st x z) st [- 1, 0, 1]) st xs"
  let ?g1 = "?gen ([], 0) [- 1, 0, 1]"
  have w1: "w1 = \<lparr>lastChunkCheckX = 0, lastChunkCheckZ = 0,
      chunksRef = filter (\<lambda>(key, chunk). \<not> chebyshev chunk 0 0 > RENDER_DISTANCE_CHUNKS + 1) (fst ?g1),
      rndPos = snd ?g1\<rparr>"
  proof -
    have "\<not> (0 = lastChunkCheckX initialWorld \<and> 0 = lastChunkCheckZ initialWorld)"
      by (simp add: initialWorld_def)
    from manageChunks_trigger [OF c0 this] show ?thesis
      unfolding w1_def ranges by (simp add: initialWorld_def)
  qed
  have a1: "cellsOf ?g1 = foldl (\<lambda>st x. foldl (\<lambda>st z. ensureCell rnd st x z) st [- 1, 0, 1])
      (cellsOf ([], 0)) [- 1, 0, 1]"
    by (rule cellsOf_outer)
  have b1: "cellsOf ([], 0) = ([], 0)"
    by (simp add: cellsOf_def)
  have "fst (cellsOf ?g1) = ?nine"
    unfolding a1 b1 by (rule cells_first)
  then have g1: "map cellOf (fst ?g1) = ?nine"
    by (simp only: cellsOf_def fst_conv)
  have "filter (\<lambda>(key, chunk). \<not> chebyshev chunk 0 0 > RENDER_DISTANCE_CHUNKS + 1) (fst ?g1) = fst ?g1"
    by (rule prune_keeps_all, unfold g1) (simp add: RENDER_DISTANCE_CHUNKS_def)
  with w1 have s1: "chunksRef w1 = fst ?g1" and l1: "lastChunkCheckX w1 = 0" "lastChunkCheckZ w1 = 0"
    by simp_all
  show m1: "map cellOf (chunksRef w1) = ?nine"
    unfolding s1 by (rule g1)
  let ?g2 = "?gen (chunksRef w1, rndPos w1) [0, 1, 2]"
  have w2: "w2 = \<lparr>lastChunkCheckX = 1, lastChunkCheckZ = 0,
      chunksRef = filter (\<lambda>(key, chunk). \<not> chebyshev chunk 1 0 > RENDER_DISTANCE_CHUNKS + 1) (fst ?g2),
      rndPos = snd ?g2\<rparr>"
  proof -
    have "\<not> (1 = lastChunkCheckX w1 \<and> 0 = lastChunkCheckZ w1)"
      by (simp add: l1)
    from manageChunks_trigger [OF c1 this] show ?thesis
      unfolding w2_def ranges by simp
  qed
  have a2: "cellsOf ?g2 = foldl (\<lambda>st x. foldl (\<lambda>st z. ensureCell rnd st x z) st [- 1, 0, 1])
      (cellsOf (chunksRef w1, rndPos w1)) [0, 1, 2]"
    by (rule cellsOf_outer)
  have b2: "cellsOf (chunksRef w1, rndPos w1) = (?nine, rndPos w1)"
    by (simp add: cellsOf_def m1)
  have "cellsOf ?g2 = foldl (\<lambda>st x. foldl (\<lambda>st z. ensureCell rnd st x z) st [- 1, 0, 1])
      (?nine, rndPos w1) [0, 1, 2]"
    unfolding a2 b2 ..
  then have c2: "cellsOf ?g2 = (?nine @ ?three,
      snd (generateChunk rnd (snd (generateChunk rnd
            (snd (generateChunk rnd (rndPos w1) 2 (- 1))) 2 0)) 2 1))"
    by (simp only: cells_second append.simps)
  then have g2: "map cellOf (fst ?g2) = ?nine @ ?three"
    by (simp add: cellsOf_def)
  have "filter (\<lambda>(key, chunk). \<not> chebyshev chunk 1 0 > RENDER_DISTANCE_CHUNKS + 1) (fst ?g2) = fst ?g2"
    by (rule prune_keeps_all, unfold g2) (simp add: RENDER_DISTANCE_CHUNKS_def)
  with w2 have s2: "chunksRef w2 = fst ?g2" and r2: "rndPos w2 = snd ?g2"
    by simp_all
  obtain new where new: "fst ?g2 = chunksRef w1 @ new"
    using outer_append [of rnd "[- 1, 0, 1]" "(chunksRef w1, rndPos w1)" "[0, 1, 2]"] by auto
  with g2 m1 have "map cellOf new = ?three"
    by simp
  with new s2 show "\<exists>new. chunksRef w2 = chunksRef w1 @ new \<and> map cellOf new = ?three"
    by auto
  from c2 r2 show "rndPos w2 = snd (generateChunk rnd (snd (generateChunk rnd
            (snd (generateChunk rnd (rndPos w1) 2 (- 1))) 2 0)) 2 1)"
    by (simp add: cellsOf_def)
qed

lemma cells_within:
  assumes "\<forall>c \<in> set (map cellOf xs). max \<bar>fst (snd c) - cx\<bar> \<bar>snd (snd c) - cz\<bar> \<le> r"
  shows "\<forall>e \<in> set xs. chebyshev (snd e) cx cz \<le> r"
  using assms by (simp add: cellOf_def chebyshev_def)

text \<open>Pruning, for any prior store: a sync that is triggered leaves no entry farther than
  RENDER_DISTANCE_CHUNKS + 1 from the camera cell, and keeps every prior entry that is
  within that distance.\<close>

lemma manageChunks_evicts:
  assumes "cameraCell cam = (cx, cz)" and "\<not> (cx = lastChunkCheckX w \<and> cz = lastChunkCheckZ w)"
  shows "\<forall>e \<in> set (chunksRef (manageChunks rnd cam w)).
           chebyshev (snd e) cx cz \<le> RENDER_DISTANCE_CHUNKS + 1"
  unfolding manageChunks_trigger [OF assms] by (auto simp add: split_def)

lemma manageChunks_retains:
  assumes "cameraCell cam = (cx, cz)" and "\<not> (cx = lastChunkCheckX w \<and> cz = lastChunkCheckZ w)"
    and "e \<in> set (chunksRef w)" and "chebyshev (snd e) cx cz \<le> RENDER_DISTANCE_CHUNKS + 1"
  shows "e \<in> set (chunksRef (manageChunks rnd cam w))"
proof -
  let ?g = "foldl (\<lambda>st x. foldl (\<lambda>st z. ensureChunk rnd st x z) st
                 [cz - RENDER_DISTANCE_CHUNKS .. cz + RENDER_DISTANCE_CHUNKS])
               (chunksRef w, rndPos w) [cx - RENDER_DISTANCE_CHUNKS .. cx + RENDER_DISTANCE_CHUNKS]"
  obtain new where "fst ?g = fst (chunksRef w, rndPos w) @ new"
    using outer_append by blast
  with assms(3) have "e \<in> set (fst ?g)"
    by simp
  with assms(4) have "e \<in> set (filter (\<lambda>(key, chunk).
      \<not> chebyshev chunk cx cz > RENDER_DISTANCE_CHUNKS + 1) (fst ?g))"
    by (simp add: split_def)
  then show ?thesis
    unfolding manageChunks_trigger [OF assms(1,2)] by simp
qed

text \<open>
  C1: from the empty store, a sync with the camera in cell (0, 0) leaves exactly the nine
  cells of {-1, 0, 1} x {-1, 0, 1}; a following sync with the camera in cell (1, 0) keeps
  the nine entries as they are (each is within Chebyshev distance 2 of (1, 0)), appends
  exactly the three cells of column x = 2 with z = -1, 0, 1, draws from the random source
  for exactly those three chunks, and leaves no chunk farther than 2 from (1, 0). The
  removal is the pruning loop's work on any store: a sync triggered at a cell (cx, cz),
  from any prior state, leaves no entry farther than 2 from (cx, cz), removes every prior
  entry that is farther than 2, and keeps every prior entry that is within 2.
\<close>

theorem C1_chunk_sync_scenario:
  fixes rnd :: "nat \<Rightarrow> real" and cam0 cam1 :: Camera
  assumes c0: "cameraCell cam0 = (0, 0)" and c1: "cameraCell cam1 = (1, 0)"
  shows "chunksRef initialWorld = []
    \<and> map cellOf (chunksRef (manageChunks rnd cam0 initialWorld)) =
       [(''-1,-1'', - 1, - 1), (''-1,0'', - 1, 0), (''-1,1'', - 1, 1),
        (''0,-1'', 0, - 1), (''0,0'', 0, 0), (''0,1'', 0, 1),
        (''1,-1'', 1, - 1), (''1,0'', 1, 0), (''1,1'', 1, 1)]
    \<and> take 9 (chunksRef (manageChunks rnd cam1 (manageChunks rnd cam0 initialWorld)))
        = chunksRef (manageChunks rnd cam0 initialWorld)
    \<and> map cellOf (drop 9 (chunksRef (manageChunks rnd cam1 (manageChunks rnd cam0 initialWorld))))
        = [(''2,-1'', 2, - 1), (''2,0'', 2, 0), (''2,1'', 2, 1)]
    \<and> rndPos (manageChunks rnd cam1 (manageChunks rnd cam0 initialWorld))
        = snd (generateChunk rnd (snd (generateChunk rnd (snd (generateChunk rnd
            (rndPos (manageChunks rnd cam0 initialWorld)) 2 (- 1))) 2 0)) 2 1)
    \<and> (\<forall>e \<in> set (chunksRef (manageChunks rnd cam0 initialWorld)).
          chebyshev (snd e) 1 0 \<le> 2 \<longrightarrow>
          e \<in> set (chunksRef (manageChunks rnd cam1 (manageChunks rnd cam0 initialWorld))))
    \<and> (\<forall>e \<in> set (chunksRef (manageChunks rnd cam1 (manageChunks rnd cam0 initialWorld))).
          chebyshev (snd e) 1 0 \<le> 2)
    \<and> (cameraCell cam = (cx, cz) \<and> \<not> (cx = lastChunkCheckX w \<and> cz = lastChunkCheckZ w) \<longrightarrow>
         (\<forall>e \<in> set (chunksRef (manageChunks rnd cam w)). chebyshev (snd e) cx cz \<le> 2)
         \<and> (\<forall>e \<in> set (chunksRef w). chebyshev (snd e) cx cz > 2 \<longrightarrow>
               e \<notin> set (chunksRef (manageChunks rnd cam w)))
         \<and> (\<forall>e \<in> set (chunksRef w). chebyshev (snd e) cx cz \<le> 2 \<longrightarrow>
               e \<in> set (chunksRef (manageChunks rnd cam w))))"
proof -
  let ?w1 = "manageChunks rnd cam0 initialWorld"
  let ?w2 = "manageChunks rnd cam1 ?w1"
  note s = sync_scenario [OF c0 c1, of rnd]
  from s(2) obtain new where new: "chunksRef ?w2 = chunksRef ?w1 @ new"
    and cells: "map cellOf new = [(''2,-1'', 2, - 1), (''2,0'', 2, 0), (''2,1'', 2, 1)]"
    by (elim exE conjE)
  have "length (map cellOf (chunksRef ?w1)) = 9"
    unfolding s(1) by simp
  then have len: "length (chunksRef ?w1) = 9"
    by simp
  have a: "take 9 (chunksRef ?w2) = chunksRef ?w1"
    unfolding new by (simp add: len)
  have "drop 9 (chunksRef ?w2) = new"
    unfolding new by (simp add: len)
  then have b: "map cellOf (drop 9 (chunksRef ?w2)) = [(''2,-1'', 2, - 1), (''2,0'', 2, 0), (''2,1'', 2, 1)]"
    using cells by (simp only:)
  have d: "\<forall>e \<in> set (chunksRef ?w1). chebyshev (snd e) 1 0 \<le> 2 \<longrightarrow> e \<in> set (chunksRef ?w2)"
    unfolding new by simp
  have e: "chunksRef initialWorld = []"
    by (simp add: initialWorld_def)
  have "\<forall>c \<in> set (map cellOf (chunksRef ?w2)). max \<bar>fst (snd c) - 1\<bar> \<bar>snd (snd c) - 0\<bar> \<le> 2"
    unfolding new map_append s(1) cells by simp
  then have c: "\<forall>e \<in> set (chunksRef ?w2). chebyshev (snd e) 1 0 \<le> 2"
    by (rule cells_within)
  have r: "RENDER_DISTANCE_CHUNKS + 1 = 2"
    by (simp add: RENDER_DISTANCE_CHUNKS_def)
  have g: "cameraCell cam = (cx, cz) \<and> \<not> (cx = lastChunkCheckX w \<and> cz = lastChunkCheckZ w) \<longrightarrow>
         (\<forall>e \<in> set (chunksRef (manageChunks rnd cam w)). chebyshev (snd e) cx cz \<le> 2)
         \<and> (\<forall>e \<in> set (chunksRef w). chebyshev (snd e) cx cz > 2 \<longrightarrow>
               e \<notin> set (chunksRef (manageChunks rnd cam w)))
         \<and> (\<forall>e \<in> set (chunksRef w). chebyshev (snd e) cx cz \<le> 2 \<longrightarrow>
               e \<in> set (chunksRef (manageChunks rnd cam w)))"
  proof (intro impI, elim conjE)
    assume t: "cameraCell cam = (cx, cz)" "\<not> (cx = lastChunkCheckX w \<and> cz = lastChunkCheckZ w)"
    have g1: "\<forall>e \<in> set (chunksRef (manageChunks rnd cam w)). chebyshev (snd e) cx cz \<le> 2"
      using manageChunks_evicts [OF t, of rnd] unfolding r .
    have g2: "\<forall>e \<in> set (chunksRef w). chebyshev (snd e) cx cz > 2 \<longrightarrow>
               e \<notin> set (chunksRef (manageChunks rnd cam w))"
      using g1 by fastforce
    have g3: "\<forall>e \<in> set (chunksRef w). chebyshev (snd e) cx cz \<le> 2 \<longrightarrow>
               e \<in> set (chunksRef (manageChunks rnd cam w))"
      using manageChunks_retains [OF t, of _ rnd] unfolding r by blast
    from g1 g2 g3 show "(\<forall>e \<in> set (chunksRef (manageChunks rnd cam w)). chebyshev (snd e) cx cz \<le> 2)
         \<and> (\<forall>e \<in> set (chunksRef w). chebyshev (snd e) cx cz > 2 \<longrightarrow>
               e \<notin> set (chunksRef (manageChunks rnd cam w)))
         \<and> (\<forall>e \<in> set (chunksRef w). chebyshev (snd e) cx cz \<le> 2 \<longrightarrow>
               e \<in> set (chunksRef (manageChunks rnd cam w)))"
      by (rule conjI [OF _ conjI])
  qed
  show ?thesis
    by (rule conjI e s(1) a b s(3) d c g)+
qed

text \<open>Witness of C1: camera at (100, 200), then at (3100, 200), all draws 1/2. For the
  pruning: from the nine cells the camera is put into cell (3, 0); the first stored entry,
  cell (-1, -1), is at distance 4 and is removed, the last, cell (1, 1), is at distance 2
  and is kept.\<close>

theorem C1_chunk_sync_scenario_witness:
  "cameraCell (cameraAt 100 200) = (0, 0) \<and> cameraCell (cameraAt 3100 200) = (1, 0)
   \<and> map cellOf (chunksRef (manageChunks (\<lambda>n. 1/2) (cameraAt 100 200) initialWorld)) =
       [(''-1,-1'', - 1, - 1), (''-1,0'', - 1, 0), (''-1,1'', - 1, 1),
        (''0,-1'', 0, - 1), (''0,0'', 0, 0), (''0,1'', 0, 1),
        (''1,-1'', 1, - 1), (''1,0'', 1, 0), (''1,1'', 1, 1)]
   \<and> map cellOf (drop 9 (chunksRef (manageChunks (\<lambda>n. 1/2) (cameraAt 3100 200)
         (manageChunks (\<lambda>n. 1/2) (cameraAt 100 200) initialWorld))))
        = [(''2,-1'', 2, - 1), (''2,0'', 2, 0), (''2,1'', 2, 1)]
   \<and> take 9 (chunksRef (manageChunks (\<lambda>n. 1/2) (cameraAt 3100 200)
         (manageChunks (\<lambda>n. 1/2) (cameraAt 100 200) initialWorld)))
        = chunksRef (manageChunks (\<lambda>n. 1/2) (cameraAt 100 200) initialWorld)
   \<and> cameraCell (cameraAt 9100 200) = (3, 0)
   \<and> cellOf (hd (chunksRef (manageChunks (\<lambda>n. 1/2) (cameraAt 100 200) initialWorld)))
        = (''-1,-1'', - 1, - 1)
   \<and> hd (chunksRef (manageChunks (\<lambda>n. 1/2) (cameraAt 100 200) initialWorld))
        \<notin> set (chunksRef (manageChunks (\<lambda>n. 1/2) (cameraAt 9100 200)
              (manageChunks (\<lambda>n. 1/2) (cameraAt 100 200) initialWorld)))
   \<and> cellOf (last (chunksRef (manageChunks (\<lambda>n. 1/2) (cameraAt 100 200) initialWorld)))
        = (''1,1'', 1, 1)
   \<and> last (chunksRef (manageChunks (\<lambda>n. 1/2) (cameraAt 100 200) initialWorld))
        \<in> set (chunksRef (manageChunks (\<lambda>n. 1/2) (cameraAt 9100 200)
              (manageChunks (\<lambda>n. 1/2) (cameraAt 100 200) initialWorld)))"
proof -
  let ?w1 = "manageChunks (\<lambda>n. 1/2) (cameraAt 100 200) initialWorld"
  let ?w3 = "manageChunks (\<lambda>n. 1/2) (cameraAt 9100 200) ?w1"
  have h: "cameraCell (cameraAt 100 200) = (0, 0)" "cameraCell (cameraAt 3100 200) = (1, 0)"
    by (rule cameraCell_examples)+
  have h3: "cameraCell (cameraAt 9100 200) = (3, 0)"
    by (simp add: cameraCell_def cameraAt_def initialCamera_def CHUNK_SIZE_def)
  have "(lastChunkCheckX ?w1, lastChunkCheckZ ?w1) = (0, 0)"
    unfolding lastCheck_manageChunks by (rule h(1))
  then have t: "\<not> (3 = lastChunkCheckX ?w1 \<and> 0 = lastChunkCheckZ ?w1)"
    by simp
  note th = C1_chunk_sync_scenario [OF h, of "\<lambda>n. 1/2" "cameraAt 9100 200" 3 0 ?w1]
  from th have nine: "map cellOf (chunksRef ?w1) =
       [(''-1,-1'', - 1, - 1), (''-1,0'', - 1, 0), (''-1,1'', - 1, 1),
        (''0,-1'', 0, - 1), (''0,0'', 0, 0), (''0,1'', 0, 1),
        (''1,-1'', 1, - 1), (''1,0'', 1, 0), (''1,1'', 1, 1)]"
    by (elim conjE)
  then have ne: "chunksRef ?w1 \<noteq> []"
    by auto
  have ch: "cellOf (hd (chunksRef ?w1)) = (''-1,-1'', - 1, - 1)"
    using arg_cong [OF nine, of hd] ne by (simp add: hd_map)
  have cl: "cellOf (last (chunksRef ?w1)) = (''1,1'', 1, 1)"
    using arg_cong [OF nine, of last] ne by (simp add: last_map)
  have dh: "chebyshev (snd (hd (chunksRef ?w1))) 3 0 > 2"
    using ch by (simp add: cellOf_def chebyshev_def)
  have dl: "chebyshev (snd (last (chunksRef ?w1))) 3 0 \<le> 2"
    using cl by (simp add: cellOf_def chebyshev_def)
  have mh: "hd (chunksRef ?w1) \<in> set (chunksRef ?w1)" and ml: "last (chunksRef ?w1) \<in> set (chunksRef ?w1)"
    using ne by simp_all
  from th h3 t have prune:
      "(\<forall>e \<in> set (chunksRef ?w1). chebyshev (snd e) 3 0 > 2 \<longrightarrow> e \<notin> set (chunksRef ?w3))"
      "(\<forall>e \<in> set (chunksRef ?w1). chebyshev (snd e) 3 0 \<le> 2 \<longrightarrow> e \<in> set (chunksRef ?w3))"
    by blast+
  have ev: "hd (chunksRef ?w1) \<notin> set (chunksRef ?w3)"
    using prune(1) mh dh by blast
  have kp: "last (chunksRef ?w1) \<in> set (chunksRef ?w3)"
    using prune(2) ml dl by blast
  from th have b: "map cellOf (drop 9 (chunksRef (manageChunks (\<lambda>n. 1/2) (cameraAt 3100 200) ?w1)))
        = [(''2,-1'', 2, - 1), (''2,0'', 2, 0), (''2,1'', 2, 1)]"
    by (elim conjE)
  from th have a: "take 9 (chunksRef (manageChunks (\<lambda>n. 1/2) (cameraAt 3100 200) ?w1)) = chunksRef ?w1"
    by (elim conjE)
  show ?thesis
    by (rule conjI h nine b a h3 ch ev cl kp)+
qed

section \<open>Agents\<close>

lemma randomRange_bounds:
  assumes "0 \<le> r" and "r < 1" and "lo < hi"
  shows "lo \<le> randomRange r lo hi" and "randomRange r lo hi < hi"
proof -
  have "0 \<le> r * (hi - lo)"
    using assms by simp
  then show "lo \<le> randomRange r lo hi"
    by (simp add: randomRange_def)
  have "r * (hi - lo) < 1 * (hi - lo)"
    using assms by (intro mult_strict_right_mono) simp_all
  then show "randomRange r lo hi < hi"
    by (simp add: randomRange_def)
qed

lemma updateCrab_idle_expired:
  assumes "crab_state crab = idle" and "crab_idleTimer crab - 1 \<le> 0"
  shows "fst (updateCrab rnd n crab) =
     crab\<lparr>crab_idleTimer := crab_idleTimer crab - 1, crab_state := walking,
       crab_targetX := crab_x crab + randomRange (rnd n) (- 400) 400,
       crab_targetZ := crab_z crab + randomRange (rnd (n + 1)) (- 200) 200\<rparr>"
  using assms by (simp add: updateCrab_def Let_def)

lemma updateCrab_walking_arrived:
  assumes "crab_state crab = walking"
    and "sqrt ((crab_targetX crab - crab_x crab) * (crab_targetX crab - crab_x crab)
          + (crab_targetZ crab - crab_z crab) * (crab_targetZ crab - crab_z crab)) < 10"
  shows "fst (updateCrab rnd n crab) =
     crab\<lparr>crab_state := idle, crab_idleTimer := randomRange (rnd n) 50 200\<rparr>"
  using assms by (simp add: updateCrab_def Let_def)

text \<open>
  C9: with draws in [0, 1), a crab that is idle and whose decremented timer is at or below
  zero becomes walking, with a new target within 400 of its x and within 200 of its z; a
  crab that is walking and closer than 10 to its target becomes idle, with a new idle
  timer in [50, 200), which is strictly positive.
\<close>

theorem C9_crab_transitions:
  assumes "unitDraws rnd"
  shows "(crab_state crab = idle \<and> crab_idleTimer crab - 1 \<le> 0 \<longrightarrow>
       crab_state (fst (updateCrab rnd n crab)) = walking
       \<and> crab_targetX (fst (updateCrab rnd n crab)) = crab_x crab + randomRange (rnd n) (- 400) 400
       \<and> crab_targetZ (fst (updateCrab rnd n crab)) = crab_z crab + randomRange (rnd (n + 1)) (- 200) 200
       \<and> crab_x crab - 400 \<le> crab_targetX (fst (updateCrab rnd n crab))
       \<and> crab_targetX (fst (updateCrab rnd n crab)) < crab_x crab + 400
       \<and> crab_z crab - 200 \<le> crab_targetZ (fst (updateCrab rnd n crab))
       \<and> crab_targetZ (fst (updateCrab rnd n crab)) < crab_z crab + 200)
    \<and> (crab_state crab = walking
        \<and> sqrt ((crab_targetX crab - crab_x crab) * (crab_targetX crab - crab_x crab)
             + (crab_targetZ crab - crab_z crab) * (crab_targetZ crab - crab_z crab)) < 10 \<longrightarrow>
       crab_state (fst (updateCrab rnd n crab)) = idle
       \<and> crab_idleTimer (fst (updateCrab rnd n crab)) = randomRange (rnd n) 50 200
       \<and> 50 \<le> crab_idleTimer (fst (updateCrab rnd n crab))
       \<and> crab_idleTimer (fst (updateCrab rnd n crab)) < 200
       \<and> 0 < crab_idleTimer (fst (updateCrab rnd n crab)))"
proof -
  have u: "0 \<le> rnd m" "rnd m < 1" for m
    using assms by (simp_all add: unitDraws_def)
  have x: "- 400 \<le> randomRange (rnd n) (- 400) 400" "randomRange (rnd n) (- 400) 400 < 400"
    using randomRange_bounds [of "rnd n" "- 400" 400] u [of n] by simp_all
  have z: "- 200 \<le> randomRange (rnd (n + 1)) (- 200) 200" "randomRange (rnd (n + 1)) (- 200) 200 < 200"
    using randomRange_bounds [of "rnd (n + 1)" "- 200" 200] u [of "n + 1"] by simp_all
  have t: "50 \<le> randomRange (rnd n) 50 200" "randomRange (rnd n) 50 200 < 200"
    using randomRange_bounds [of "rnd n" 50 200] u [of n] by simp_all
  show ?thesis
  proof (intro conjI impI)
    assume a: "crab_state crab = idle \<and> crab_idleTimer crab - 1 \<le> 0"
    then have e: "fst (updateCrab rnd n crab) =
       crab\<lparr>crab_idleTimer := crab_idleTimer crab - 1, crab_state := walking,
         crab_targetX := crab_x crab + randomRange (rnd n) (- 400) 400,
         crab_targetZ := crab_z crab + randomRange (rnd (n + 1)) (- 200) 200\<rparr>"
      by (intro updateCrab_idle_expired) simp_all
    show "crab_state (fst (updateCrab rnd n crab)) = walking"
      by (simp add: e)
    show "crab_targetX (fst (updateCrab rnd n crab)) = crab_x crab + randomRange (rnd n) (- 400) 400"
      by (simp add: e)
    show "crab_targetZ (fst (updateCrab rnd n crab)) = crab_z crab + randomRange (rnd (n + 1)) (- 200) 200"
      by (simp add: e)
    show "crab_x crab - 400 \<le> crab_targetX (fst (updateCrab rnd n crab))"
      using x by (simp add: e)
    show "crab_targetX (fst (updateCrab rnd n crab)) < crab_x crab + 400"
      using x by (simp add: e)
    show "crab_z crab - 200 \<le> crab_targetZ (fst (updateCrab rnd n crab))"
      using z by (simp add: e)
    show "crab_targetZ (fst (updateCrab rnd n crab)) < crab_z crab + 200"
      using z by (simp add: e)
  next
    assume a: "crab_state crab = walking
        \<and> sqrt ((crab_targetX crab - crab_x crab) * (crab_targetX crab - crab_x crab)
             + (crab_targetZ crab - crab_z crab) * (crab_targetZ crab - crab_z crab)) < 10"
    then have e: "fst (updateCrab rnd n crab) =
       crab\<lparr>crab_state := idle, crab_idleTimer := randomRange (rnd n) 50 200\<rparr>"
      by (intro updateCrab_walking_arrived) simp_all
    show "crab_state (fst (updateCrab rnd n crab)) = idle"
      by (simp add: e)
    show "crab_idleTimer (fst (updateCrab rnd n crab)) = randomRange (rnd n) 50 200"
      by (simp add: e)
    show "50 \<le> crab_idleTimer (fst (updateCrab rnd n crab))"
      using t by (simp add: e)
    show "crab_idleTimer (fst (updateCrab rnd n crab)) < 200"
      using t by (simp add: e)
    show "0 < crab_idleTimer (fst (updateCrab rnd n crab))"
      using t by (simp add: e)
  qed
qed

lemma unitDraws_const: "unitDraws (\<lambda>n. 3/4)"
  by (simp add: unitDraws_def)

text \<open>Witness of C9: an idle crab with timer 0, and the same crab walking at its target.\<close>

theorem C9_crab_transitions_witness:
  "unitDraws (\<lambda>n. 3/4)
   \<and> crab_state idleCrab = idle \<and> crab_idleTimer idleCrab - 1 \<le> 0
   \<and> crab_state (fst (updateCrab (\<lambda>n. 3/4) 0 idleCrab)) = walking
   \<and> crab_targetX (fst (updateCrab (\<lambda>n. 3/4) 0 idleCrab)) = 300
   \<and> crab_state arrivedCrab = walking
   \<and> crab_state (fst (updateCrab (\<lambda>n. 3/4) 0 arrivedCrab)) = idle
   \<and> crab_idleTimer (fst (updateCrab (\<lambda>n. 3/4) 0 arrivedCrab)) = 162.5"
proof -
  have h: "crab_state idleCrab = idle" "crab_idleTimer idleCrab - 1 \<le> 0"
    "crab_state arrivedCrab = walking"
    "sqrt ((crab_targetX arrivedCrab - crab_x arrivedCrab) * (crab_targetX arrivedCrab - crab_x arrivedCrab)
       + (crab_targetZ arrivedCrab - crab_z arrivedCrab) * (crab_targetZ arrivedCrab - crab_z arrivedCrab)) < 10"
    "crab_x idleCrab = 100"
    by (simp_all add: idleCrab_def arrivedCrab_def)
  from C9_crab_transitions [OF unitDraws_const, of idleCrab 0]
    C9_crab_transitions [OF unitDraws_const, of arrivedCrab 0] h unitDraws_const
  show ?thesis by (simp add: randomRange_def)
qed

text \<open>The crab divides by its distance only in the branch where the distance is at least
  10, and a crab at distance zero from its target keeps its position.\<close>

lemma updateCrab_move_divisor:
  assumes "crab_state crab = walking"
    and "crab_x (fst (updateCrab rnd n crab)) \<noteq> crab_x crab
         \<or> crab_z (fst (updateCrab rnd n crab)) \<noteq> crab_z crab"
  shows "10 \<le> sqrt ((crab_targetX crab - crab_x crab) * (crab_targetX crab - crab_x crab)
          + (crab_targetZ crab - crab_z crab) * (crab_targetZ crab - crab_z crab))"
  using assms by (simp add: updateCrab_def Let_def split: if_splits)

lemma updateCrab_zero_distance:
  assumes "crab_targetX crab = crab_x crab" and "crab_targetZ crab = crab_z crab"
  shows "crab_x (fst (updateCrab rnd n crab)) = crab_x crab
     \<and> crab_z (fst (updateCrab rnd n crab)) = crab_z crab"
  using assms by (simp add: updateCrab_def Let_def)

text \<open>The fish has no such branch: at distance zero the quotient \<open>dx / dist\<close> is 0 / 0,
  and the position becomes NaN.\<close>

lemma updateFish_zero_distance:
  assumes "fish_x fish = Fin (fish_targetX fish)" and "fish_z fish = Fin (fish_targetZ fish)"
  shows "fish_x (fst (updateFish rnd n cam chunk fish)) = NaN
     \<and> fish_z (fst (updateFish rnd n cam chunk fish)) = NaN"
  using assms by (simp add: updateFish_def Let_def jsSub_def jsGt_def)

lemma centredFish_at_target:
  "fish_x centredFish = Fin 1500" "fish_targetX centredFish = 1500"
  "fish_z centredFish = Fin 1500" "fish_targetZ centredFish = 1500"
  by (simp_all add: centredFish_def newFish_def Let_def randomRange_def CHUNK_SIZE_def)

text \<open>
  C5: a fish at planar distance zero from its target is to keep a finite, unchanged
  position. The fish that \<open>generateChunk\<close> makes when the draws are all 1/2 has its target
  at its own position, and its next update leaves both coordinates NaN.
\<close>

theorem C5_fish_zero_distance_nan:
  "fish_x centredFish = Fin (fish_targetX centredFish)
   \<and> fish_z centredFish = Fin (fish_targetZ centredFish)
   \<and> fish_x (fst (updateFish (\<lambda>n. 1/2) 11 initialCamera (emptyChunk 0 0) centredFish)) = NaN
   \<and> fish_z (fst (updateFish (\<lambda>n. 1/2) 11 initialCamera (emptyChunk 0 0) centredFish)) = NaN
   \<and> \<not> isFinite (fish_x (fst (updateFish (\<lambda>n. 1/2) 11 initialCamera (emptyChunk 0 0) centredFish)))"
proof -
  have h: "fish_x centredFish = Fin (fish_targetX centredFish)"
    "fish_z centredFish = Fin (fish_targetZ centredFish)"
    by (simp_all add: centredFish_at_target)
  from updateFish_zero_distance [OF h] h show ?thesis by simp
qed

end
